theory Spec2Isabelle
  imports Main
begin

section \<open>JavaScript values and objects\<close>

text \<open>
  The service passes plain JavaScript objects (\<open>Partial<Campaign>\<close>, rows of type \<open>any\<close>)
  to and from the data store. An object is a map from property names to values; the
  value \<open>undefined\<close> is kept apart from an absent property because the source creates it
  (\<open>created_by: userData?.user?.id\<close>) and reads it (\<open>customer.first_name\<close>).
  Numbers and arrays do not occur in the operations modelled here and are left out.
  Strings are byte strings; the three placeholder tokens and the replacement patterns
  are ASCII, so matching them on UTF-8 bytes and on UTF-16 code units agrees.
\<close>

datatype jval = JUndefined | JNull | JBool bool | JStr string | JObj "string \<Rightarrow> jval option"

type_synonym obj = "string \<Rightarrow> jval option"

text \<open>Property access \<open>o.k\<close>: an absent property reads as \<open>undefined\<close>.\<close>

definition field :: "obj \<Rightarrow> string \<Rightarrow> jval" where
  "field m k = (case m k of None \<Rightarrow> JUndefined | Some v \<Rightarrow> v)"

text \<open>JavaScript truthiness, as used by \<open>x || y\<close> and \<open>if (!x)\<close>.\<close>

definition truthy :: "jval \<Rightarrow> bool" where
  "truthy v = (case v of JUndefined \<Rightarrow> False | JNull \<Rightarrow> False | JBool b \<Rightarrow> b
                 | JStr s \<Rightarrow> s \<noteq> [] | JObj m \<Rightarrow> True)"

text \<open>\<open>ToString\<close>, as applied by a template literal and by \<open>String.prototype.replace\<close>.\<close>

definition to_string :: "jval \<Rightarrow> string" where
  "to_string v = (case v of JUndefined \<Rightarrow> ''undefined'' | JNull \<Rightarrow> ''null''
                    | JBool b \<Rightarrow> (if b then ''true'' else ''false'')
                    | JStr s \<Rightarrow> s | JObj m \<Rightarrow> ''[object Object]'')"

text \<open>
  \<open>JSON.stringify\<close>, through which every payload reaches the store: properties whose
  value is \<open>undefined\<close> are dropped, at every depth.
\<close>

primrec wire_val :: "jval \<Rightarrow> jval" where
  "wire_val JUndefined = JUndefined"
| "wire_val JNull = JNull"
| "wire_val (JBool b) = JBool b"
| "wire_val (JStr s) = JStr s"
| "wire_val (JObj m) =
     JObj (\<lambda>k. case map_option wire_val (m k) of Some JUndefined \<Rightarrow> None | v \<Rightarrow> v)"

definition wire :: "obj \<Rightarrow> obj" where
  "wire m = (\<lambda>k. case map_option wire_val (m k) of Some JUndefined \<Rightarrow> None | v \<Rightarrow> v)"

text \<open>\<open>userData?.user?.id\<close> as a property value, and \<open>userData?.user?.id || null\<close>.\<close>

definition id_or_undefined :: "string option \<Rightarrow> jval" where
  "id_or_undefined uid = (case uid of None \<Rightarrow> JUndefined | Some u \<Rightarrow> JStr u)"

definition id_or_null :: "string option \<Rightarrow> jval" where
  "id_or_null uid = (if truthy (id_or_undefined uid) then id_or_undefined uid else JNull)"


section \<open>The data store\<close>

text \<open>
  Modelled from the spec: the module \<open>../lib/supabase\<close> that the service imports is not
  part of the sources. The spec describes it as a DataStore with table-scoped
  \<open>select\<close> (equality filters, single / maybe-single / nested-relation projection),
  \<open>insert\<close>, \<open>update\<close>, \<open>upsert\<close> and \<open>delete\<close>, plus an authentication accessor
  returning the current user identity or none. Every request is answered with either
  data or an error value; the store does not throw.

  The store state holds the tables, the session's user id, the store's refusals
  (\<open>fault\<close>: the error message with which a given request is answered, if any), the
  column defaults the server assigns to a new row (identity, timestamps), a serial
  number for those, and the journal of the requests received.
\<close>

type_synonym filters = "(string \<times> jval) list"

datatype call =
    AuthGetUser
  | Select string string filters
  | Insert string obj
  | Update string obj filters
  | Upsert string obj
  | Delete string filters

record store =
  tables :: "string \<Rightarrow> obj list"
  auth_user :: "string option"
  fault :: "call \<Rightarrow> string option"
  server_defaults :: "string \<Rightarrow> nat \<Rightarrow> obj"
  serial :: nat
  calls :: "call list"

datatype 'a response = Failed string | Ok 'a

text \<open>The \<open>data\<close> component of a response \<open>{ data, error }\<close>: \<open>null\<close> when the request failed.\<close>

definition data_of :: "'a response \<Rightarrow> 'a option" where
  "data_of r = (case r of Failed e \<Rightarrow> None | Ok d \<Rightarrow> Some d)"

definition log_call :: "call \<Rightarrow> store \<Rightarrow> store" where
  "log_call c s = s\<lparr>calls := calls s @ [c]\<rparr>"

text \<open>A row satisfies a chain of \<open>.eq(column, value)\<close> filters.\<close>

definition matches :: "filters \<Rightarrow> obj \<Rightarrow> bool" where
  "matches fs row = list_all (\<lambda>(k, v). row k = Some v) fs"

text \<open>Modelled from the spec: \<open>auth.getUser()\<close>, read through \<open>userData?.user?.id\<close>.\<close>

definition auth_getUser :: "store \<Rightarrow> string option \<times> store" where
  "auth_getUser s =
     ((case fault s AuthGetUser of Some e \<Rightarrow> None | None \<Rightarrow> auth_user s),
      log_call AuthGetUser s)"

text \<open>Modelled from the spec: \<open>from(t).select(cols).eq(...)\<close>.\<close>

definition db_select :: "string \<Rightarrow> string \<Rightarrow> filters \<Rightarrow> store \<Rightarrow> obj list response \<times> store" where
  "db_select t cols fs s =
     (let c = Select t cols fs in
      (case fault s c of Some e \<Rightarrow> Failed e
       | None \<Rightarrow> Ok (filter (matches fs) (tables s t)),
       log_call c s))"

text \<open>
  Modelled from the spec: \<open>from(t).insert(payload)\<close>. The persisted row is the payload as
  serialised, over the server-assigned defaults; the response carries the row as
  \<open>.select()\<close> returns it.
\<close>

definition db_insert :: "string \<Rightarrow> obj \<Rightarrow> store \<Rightarrow> obj list response \<times> store" where
  "db_insert t payload s =
     (let c = Insert t payload; s' = log_call c s in
      case fault s c of Some e \<Rightarrow> (Failed e, s')
      | None \<Rightarrow>
          (let row = server_defaults s t (serial s) ++ wire payload in
           (Ok [row], s'\<lparr>tables := (tables s)(t := tables s t @ [row]), serial := Suc (serial s)\<rparr>)))"

text \<open>
  Modelled from the spec: \<open>from(t).update(patch).eq(...)\<close>, a partial field patch applied
  to every row that satisfies the filters.
\<close>

definition db_update :: "string \<Rightarrow> obj \<Rightarrow> filters \<Rightarrow> store \<Rightarrow> obj list response \<times> store" where
  "db_update t patch fs s =
     (let c = Update t patch fs; s' = log_call c s in
      case fault s c of Some e \<Rightarrow> (Failed e, s')
      | None \<Rightarrow>
          (Ok (map (\<lambda>row. row ++ wire patch) (filter (matches fs) (tables s t))),
           s'\<lparr>tables := (tables s)(t :=
                 map (\<lambda>row. if matches fs row then row ++ wire patch else row) (tables s t))\<rparr>))"

text \<open>Modelled from the spec: \<open>from(t).delete().eq(...)\<close>, a hard delete of the matching rows.\<close>

definition db_delete :: "string \<Rightarrow> filters \<Rightarrow> store \<Rightarrow> obj list response \<times> store" where
  "db_delete t fs s =
     (let c = Delete t fs; s' = log_call c s in
      case fault s c of Some e \<Rightarrow> (Failed e, s')
      | None \<Rightarrow>
          (Ok (filter (matches fs) (tables s t)),
           s'\<lparr>tables := (tables s)(t := filter (\<lambda>row. \<not> matches fs row) (tables s t))\<rparr>))"

text \<open>
  Modelled from the spec: \<open>.single()\<close> demands exactly one row, \<open>.maybeSingle()\<close> at most
  one; any other count is answered with an error.
\<close>

definition row_count_error :: string where
  "row_count_error = ''JSON object requested, multiple (or no) rows returned''"

definition single :: "obj list response \<Rightarrow> obj response" where
  "single r = (case r of Failed e \<Rightarrow> Failed e
               | Ok rows \<Rightarrow> (case rows of [row] \<Rightarrow> Ok row | _ \<Rightarrow> Failed row_count_error))"

definition maybeSingle :: "obj list response \<Rightarrow> obj option response" where
  "maybeSingle r = (case r of Failed e \<Rightarrow> Failed e
                    | Ok rows \<Rightarrow> (case rows of [] \<Rightarrow> Ok None | [row] \<Rightarrow> Ok (Some row)
                                  | _ \<Rightarrow> Failed row_count_error))"


section \<open>The campaign service\<close>

text \<open>
  A rejected promise is an outcome \<open>Throw\<close>: either \<open>new Error(message)\<close> or the
  \<open>TypeError\<close> the runtime raises on a property access on \<open>null\<close>.
\<close>

datatype err = Error string | TypeError

datatype 'a outcome = Return 'a | Throw err

text \<open>The object literal that \<open>logAuditAction\<close> inserts.\<close>

definition audit_entry :: "jval \<Rightarrow> string \<Rightarrow> jval \<Rightarrow> obj \<Rightarrow> obj" where
  "audit_entry campaignId action performedBy changes =
     [''campaign_id'' \<mapsto> campaignId, ''action'' \<mapsto> JStr action,
      ''performed_by'' \<mapsto> performedBy, ''changes'' \<mapsto> JObj changes]"

text \<open>\<open>logAuditAction\<close> awaits the insert and drops the response, error included.\<close>

definition logAuditAction :: "jval \<Rightarrow> string \<Rightarrow> jval \<Rightarrow> obj \<Rightarrow> store \<Rightarrow> store" where
  "logAuditAction campaignId action performedBy changes s =
     snd (db_insert ''campaign_audit_log'' (audit_entry campaignId action performedBy changes) s)"

definition createCampaign :: "obj \<Rightarrow> store \<Rightarrow> obj outcome \<times> store" where
  "createCampaign campaign s =
     (let (uid, s1) = auth_getUser s;
          (r, s2) = db_insert ''campaigns''
                      (campaign(''created_by'' \<mapsto> id_or_undefined uid)) s1
      in case single r of
           Failed e \<Rightarrow> (Throw (Error e), s2)
         | Ok d \<Rightarrow>
             (Return d,
              logAuditAction (field d ''id'') ''created'' (id_or_null uid) Map.empty s2))"

text \<open>
  \<open>updateCampaign\<close>, \<open>scheduleCampaign\<close>, \<open>cancelCampaign\<close>, \<open>pauseCampaign\<close> and
  \<open>resumeCampaign\<close> share one shape in the source: read the user, update the rows with
  the given id, throw on an error, log the action, return the row.
\<close>

definition updateCampaign :: "string \<Rightarrow> obj \<Rightarrow> store \<Rightarrow> obj outcome \<times> store" where
  "updateCampaign campaignId updates s =
     (let (uid, s1) = auth_getUser s;
          (r, s2) = db_update ''campaigns'' updates [(''id'', JStr campaignId)] s1
      in case single r of
           Failed e \<Rightarrow> (Throw (Error e), s2)
         | Ok d \<Rightarrow>
             (Return d,
              logAuditAction (JStr campaignId) ''edited'' (id_or_null uid) updates s2))"

definition deleteCampaign :: "string \<Rightarrow> store \<Rightarrow> unit outcome \<times> store" where
  "deleteCampaign campaignId s =
     (let (r, s1) = db_delete ''campaigns'' [(''id'', JStr campaignId)] s
      in case r of
           Failed e \<Rightarrow> (Throw (Error e), s1)
         | Ok rows \<Rightarrow> (Return (), s1))"

definition scheduleCampaign :: "string \<Rightarrow> string \<Rightarrow> store \<Rightarrow> obj outcome \<times> store" where
  "scheduleCampaign campaignId scheduledAt s =
     (let (uid, s1) = auth_getUser s;
          (r, s2) = db_update ''campaigns''
                      [''status'' \<mapsto> JStr ''scheduled'', ''scheduled_at'' \<mapsto> JStr scheduledAt]
                      [(''id'', JStr campaignId)] s1
      in case single r of
           Failed e \<Rightarrow> (Throw (Error e), s2)
         | Ok d \<Rightarrow>
             (Return d,
              logAuditAction (JStr campaignId) ''scheduled'' (id_or_null uid)
                [''scheduled_at'' \<mapsto> JStr scheduledAt] s2))"

definition cancelCampaign :: "string \<Rightarrow> store \<Rightarrow> obj outcome \<times> store" where
  "cancelCampaign campaignId s =
     (let (uid, s1) = auth_getUser s;
          (r, s2) = db_update ''campaigns'' [''status'' \<mapsto> JStr ''cancelled'']
                      [(''id'', JStr campaignId)] s1
      in case single r of
           Failed e \<Rightarrow> (Throw (Error e), s2)
         | Ok d \<Rightarrow>
             (Return d,
              logAuditAction (JStr campaignId) ''cancelled'' (id_or_null uid) Map.empty s2))"

definition pauseCampaign :: "string \<Rightarrow> store \<Rightarrow> obj outcome \<times> store" where
  "pauseCampaign campaignId s =
     (let (uid, s1) = auth_getUser s;
          (r, s2) = db_update ''campaigns'' [''status'' \<mapsto> JStr ''paused'']
                      [(''id'', JStr campaignId)] s1
      in case single r of
           Failed e \<Rightarrow> (Throw (Error e), s2)
         | Ok d \<Rightarrow>
             (Return d,
              logAuditAction (JStr campaignId) ''paused'' (id_or_null uid) Map.empty s2))"

definition resumeCampaign :: "string \<Rightarrow> store \<Rightarrow> obj outcome \<times> store" where
  "resumeCampaign campaignId s =
     (let (uid, s1) = auth_getUser s;
          (r, s2) = db_update ''campaigns'' [''status'' \<mapsto> JStr ''scheduled'']
                      [(''id'', JStr campaignId)] s1
      in case single r of
           Failed e \<Rightarrow> (Throw (Error e), s2)
         | Ok d \<Rightarrow>
             (Return d,
              logAuditAction (JStr campaignId) ''resumed'' (id_or_null uid) Map.empty s2))"

text \<open>
  \<open>getCustomerTags\<close> selects \<open>customer_tags(*)\<close> from the assignment table: an
  assignment row of the customer comes back as an object whose only property is the
  embedded tag.

  Modelled from the spec: the nested-relation projection, by which \<open>getCustomerTags\<close>
  "joins through the assignment table". The spec has the result leave out an assignment
  whose tag was deleted, so an assignment row that references no existing tag row has
  no row in the answer. The foreign-key column \<open>tag_id\<close> is the one
  \<open>assignTagToCustomer\<close> writes.
\<close>

definition embed :: "store \<Rightarrow> string \<Rightarrow> string \<Rightarrow> obj \<Rightarrow> obj option" where
  "embed s rel fk row =
     (case row fk of
        None \<Rightarrow> None
      | Some v \<Rightarrow> map_option (\<lambda>r. [rel \<mapsto> JObj r])
                    (find (\<lambda>r. r ''id'' = Some v) (tables s rel)))"

definition db_select_embed ::
  "string \<Rightarrow> string \<Rightarrow> string \<Rightarrow> filters \<Rightarrow> store \<Rightarrow> obj list response \<times> store" where
  "db_select_embed t rel fk fs s =
     (let c = Select t (rel @ ''(*)'') fs in
      (case fault s c of Some e \<Rightarrow> Failed e
       | None \<Rightarrow> Ok (List.map_filter (embed s rel fk) (filter (matches fs) (tables s t))),
       log_call c s))"

text \<open>
  The body of \<open>getCustomerTags\<close> after the await, as a function of what the store
  answered: \<open>if (error) throw new Error(error.message)\<close>, then
  \<open>data?.map(item => item.customer_tags) || []\<close>.
\<close>

definition unwrap_customer_tags :: "obj list response \<Rightarrow> jval list outcome" where
  "unwrap_customer_tags r =
     (case r of
        Failed e \<Rightarrow> Throw (Error e)
      | Ok rows \<Rightarrow> Return (map (\<lambda>item. field item ''customer_tags'') rows))"

definition getCustomerTags :: "string \<Rightarrow> store \<Rightarrow> jval list outcome \<times> store" where
  "getCustomerTags customerId s =
     (let (r, s1) = db_select_embed ''customer_tag_assignments'' ''customer_tags'' ''tag_id''
                      [(''customer_id'', JStr customerId)] s
      in (unwrap_customer_tags r, s1))"

text \<open>
  Modelled from the spec: \<open>from(t).upsert(payload)\<close>, "a partial patch merged onto the
  natural key, creating if absent". The call in the source names no conflict columns;
  which columns decide a conflict is the store's, and the spec gives the pair
  \<open>(customer_id, restaurant_id)\<close> as the natural key of the consent table.
\<close>

definition conflict_key :: "string \<Rightarrow> string list" where
  "conflict_key t =
     (if t = ''customer_consent'' then [''customer_id'', ''restaurant_id''] else [''id''])"

definition same_key :: "string list \<Rightarrow> obj \<Rightarrow> obj \<Rightarrow> bool" where
  "same_key ks p row = list_all (\<lambda>k. p k \<noteq> None \<and> row k = p k) ks"

definition db_upsert :: "string \<Rightarrow> obj \<Rightarrow> store \<Rightarrow> obj list response \<times> store" where
  "db_upsert t payload s =
     (let c = Upsert t payload; s' = log_call c s; p = wire payload; ks = conflict_key t in
      case fault s c of Some e \<Rightarrow> (Failed e, s')
      | None \<Rightarrow>
          if list_ex (same_key ks p) (tables s t)
          then (Ok (map (\<lambda>row. row ++ p) (filter (same_key ks p) (tables s t))),
                s'\<lparr>tables := (tables s)(t :=
                      map (\<lambda>row. if same_key ks p row then row ++ p else row) (tables s t))\<rparr>)
          else (let row = server_defaults s t (serial s) ++ p in
                (Ok [row],
                 s'\<lparr>tables := (tables s)(t := tables s t @ [row]), serial := Suc (serial s)\<rparr>)))"

text \<open>The payload is \<open>{ customer_id, restaurant_id, ...consent }\<close>: the patch is spread last.\<close>

definition consent_payload :: "string \<Rightarrow> string \<Rightarrow> obj \<Rightarrow> obj" where
  "consent_payload customerId restaurantId consent =
     [''customer_id'' \<mapsto> JStr customerId, ''restaurant_id'' \<mapsto> JStr restaurantId] ++ consent"

definition updateCustomerConsent ::
  "string \<Rightarrow> string \<Rightarrow> obj \<Rightarrow> store \<Rightarrow> obj outcome \<times> store" where
  "updateCustomerConsent customerId restaurantId consent s =
     (let (r, s1) = db_upsert ''customer_consent''
                      (consent_payload customerId restaurantId consent) s
      in case single r of
           Failed e \<Rightarrow> (Throw (Error e), s1)
         | Ok d \<Rightarrow> (Return d, s1))"

text \<open>The consent rows stored for a (customer, restaurant) pair.\<close>

definition consent_rows :: "string \<Rightarrow> string \<Rightarrow> store \<Rightarrow> obj list" where
  "consent_rows customerId restaurantId s =
     filter (\<lambda>row. row ''customer_id'' = Some (JStr customerId)
                  \<and> row ''restaurant_id'' = Some (JStr restaurantId))
       (tables s ''customer_consent'')"


subsection \<open>Message preview\<close>

text \<open>
  \<open>String.prototype.replace\<close> with a global regular expression and a replacement
  string. The three regular expressions of the source are non-empty literals (escaped
  braces around a name) without capture groups, so a match is an occurrence of the
  literal, found scanning left to right, and the search resumes after it.

  The replacement string is not inserted as it is: \<open>GetSubstitution\<close> expands
  a doubled dollar sign to one dollar sign, dollar-ampersand to the matched text,
  dollar-backtick to the text before the match and dollar-apostrophe to the text after
  it. With no capture groups, a dollar sign before anything else stands for itself.
\<close>

fun starts_with :: "string \<Rightarrow> string \<Rightarrow> bool" where
  "starts_with [] s = True"
| "starts_with (t # ts) [] = False"
| "starts_with (t # ts) (c # cs) = (t = c \<and> starts_with ts cs)"

fun get_substitution :: "string \<Rightarrow> string \<Rightarrow> string \<Rightarrow> string \<Rightarrow> string" where
  "get_substitution matched before after (c # d # r) =
     (if c = CHR ''$'' \<and> d = CHR ''$'' then CHR ''$'' # get_substitution matched before after r
      else if c = CHR ''$'' \<and> d = CHR ''&'' then matched @ get_substitution matched before after r
      else if c = CHR ''$'' \<and> d = CHR 0x60 then before @ get_substitution matched before after r
      else if c = CHR ''$'' \<and> d = CHR 0x27 then after @ get_substitution matched before after r
      else c # get_substitution matched before after (d # r))"
| "get_substitution matched before after r = r"

function replace_from :: "string \<Rightarrow> string \<Rightarrow> string \<Rightarrow> string \<Rightarrow> string" where
  "replace_from tok repl before [] = []"
| "replace_from tok repl before (c # cs) =
     (if starts_with tok (c # cs)
      then get_substitution tok before (drop (length tok - 1) cs) repl
           @ replace_from tok repl (before @ tok) (drop (length tok - 1) cs)
      else c # replace_from tok repl (before @ [c]) cs)"
  by pat_completeness auto
termination
  by (relation "measure (\<lambda>(tok, repl, before, s). length s)") auto

definition js_replace :: "string \<Rightarrow> string \<Rightarrow> string \<Rightarrow> string" where
  "js_replace tok repl str = replace_from tok repl [] str"

text \<open>
  The two replacement values that depend on data: the template literal
  \<open>`${customer.first_name} ${customer.last_name}`\<close> and \<open>restaurant?.name || ''\<close>.
\<close>

definition customer_full_name :: "obj \<Rightarrow> string" where
  "customer_full_name cust =
     to_string (field cust ''first_name'') @ '' '' @ to_string (field cust ''last_name'')"

definition restaurant_name_or_empty :: "obj option \<Rightarrow> string" where
  "restaurant_name_or_empty restaurant =
     to_string (let n = (case restaurant of None \<Rightarrow> JUndefined | Some r \<Rightarrow> field r ''name'')
                in if truthy n then n else JStr [])"

text \<open>The body of the \<open>messages.map\<close> callback, on the template string.\<close>

definition render :: "obj \<Rightarrow> obj option \<Rightarrow> string \<Rightarrow> string" where
  "render cust restaurant template =
     (let rendered = template;
          rendered = js_replace ''{{customer_name}}'' (customer_full_name cust) rendered;
          rendered = js_replace ''{{restaurant_name}}'' (restaurant_name_or_empty restaurant) rendered;
          rendered = js_replace ''{{promo_code}}'' ''PREVIEW-CODE'' rendered
      in rendered)"

text \<open>
  For comparison, substitution as the spec words it: every occurrence of the token is
  replaced by the value, taken literally, and all other text is kept. \<open>occurs\<close> says
  that the token is found somewhere in the text.
\<close>

function replace_all :: "string \<Rightarrow> string \<Rightarrow> string \<Rightarrow> string" where
  "replace_all tok v [] = []"
| "replace_all tok v (c # cs) =
     (if starts_with tok (c # cs) then v @ replace_all tok v (drop (length tok - 1) cs)
      else c # replace_all tok v cs)"
  by pat_completeness auto
termination
  by (relation "measure (\<lambda>(tok, v, s). length s)") auto

fun occurs :: "string \<Rightarrow> string \<Rightarrow> bool" where
  "occurs tok [] = False"
| "occurs tok (c # cs) = (starts_with tok (c # cs) \<or> occurs tok cs)"

text \<open>
  The callback on a message row: \<open>{ ...msg, rendered_message: rendered }\<close>. Calling
  \<open>.replace\<close> on a template that is not a string raises a \<open>TypeError\<close> (\<open>None\<close>).
\<close>

definition render_message :: "obj \<Rightarrow> obj option \<Rightarrow> obj \<Rightarrow> obj option" where
  "render_message cust restaurant msg =
     (case field msg ''message_template'' of
        JStr template \<Rightarrow> Some (msg(''rendered_message'' \<mapsto> JStr (render cust restaurant template)))
      | _ \<Rightarrow> None)"

record preview =
  campaign :: obj
  messages :: "obj list"
  customer :: obj

definition getCampaign :: "string \<Rightarrow> store \<Rightarrow> obj option outcome \<times> store" where
  "getCampaign campaignId s =
     (let (r, s1) = db_select ''campaigns'' ''*'' [(''id'', JStr campaignId)] s
      in case maybeSingle r of
           Failed e \<Rightarrow> (Throw (Error e), s1)
         | Ok d \<Rightarrow> (Return d, s1))"

definition getCampaignMessages :: "string \<Rightarrow> store \<Rightarrow> obj list outcome \<times> store" where
  "getCampaignMessages campaignId s =
     (let (r, s1) = db_select ''campaign_messages'' ''*'' [(''campaign_id'', JStr campaignId)] s
      in case r of
           Failed e \<Rightarrow> (Throw (Error e), s1)
         | Ok rows \<Rightarrow> (Return rows, s1))"

definition previewCampaign :: "string \<Rightarrow> string \<Rightarrow> store \<Rightarrow> preview outcome \<times> store" where
  "previewCampaign campaignId customerId s =
     (case getCampaign campaignId s of
        (Throw x, s1) \<Rightarrow> (Throw x, s1)
      | (Return c, s1) \<Rightarrow>
     (case getCampaignMessages campaignId s1 of
        (Throw x, s2) \<Rightarrow> (Throw x, s2)
      | (Return msgs, s2) \<Rightarrow>
     (case c of
        None \<Rightarrow> (Throw (Error ''Campaign or messages not found''), s2)
      | Some camp \<Rightarrow>
          if msgs = [] then (Throw (Error ''Campaign or messages not found''), s2)
          else
            let (rc, s3) = db_select ''customers'' ''*'' [(''id'', JStr customerId)] s2
            in (case data_of (single rc) of
                  None \<Rightarrow> (Throw (Error ''Customer not found''), s3)
                | Some cust \<Rightarrow>
                    let (rr, s4) = db_select ''restaurants'' ''*''
                                     [(''id'', field camp ''restaurant_id'')] s3;
                        restaurant = data_of (single rr)
                    in (case those (map (render_message cust restaurant) msgs) of
                          None \<Rightarrow> (Throw TypeError, s4)
                        | Some rendered \<Rightarrow>
                            let (uid, s5) = auth_getUser s4;
                                s6 = logAuditAction (JStr campaignId) ''preview'' (id_or_null uid)
                                       [''customer_id'' \<mapsto> JStr customerId] s5
                            in (Return \<lparr>campaign = camp, messages = rendered, customer = cust\<rparr>,
                                s6))))))"


section \<open>Example data\<close>

text \<open>
  A small store on which the operations are run: a draft and a cancelled campaign of one
  restaurant, one message template, one customer with one tag, one earlier audit entry,
  and a signed-in user. The store refuses nothing.
\<close>

definition demo_campaign :: obj where
  "demo_campaign = [''id'' \<mapsto> JStr ''c1'', ''restaurant_id'' \<mapsto> JStr ''r1'',
                    ''name'' \<mapsto> JStr ''Summer'', ''status'' \<mapsto> JStr ''draft'']"

definition demo_cancelled :: obj where
  "demo_cancelled = [''id'' \<mapsto> JStr ''c2'', ''restaurant_id'' \<mapsto> JStr ''r1'',
                     ''name'' \<mapsto> JStr ''Winter'', ''status'' \<mapsto> JStr ''cancelled'']"

definition demo_message :: obj where
  "demo_message = [''id'' \<mapsto> JStr ''m1'', ''campaign_id'' \<mapsto> JStr ''c1'',
                   ''channel'' \<mapsto> JStr ''push'',
                   ''message_template'' \<mapsto>
                      JStr ''Hi {{customer_name}}: {{promo_code}} at {{restaurant_name}} {{unknown}}'']"

definition demo_customer :: obj where
  "demo_customer = [''id'' \<mapsto> JStr ''k1'', ''first_name'' \<mapsto> JStr ''Ann'',
                    ''last_name'' \<mapsto> JStr ''Lee'']"

text \<open>A customer whose first name is the text of a placeholder.\<close>

definition demo_odd_customer :: obj where
  "demo_odd_customer = [''id'' \<mapsto> JStr ''k2'', ''first_name'' \<mapsto> JStr ''{{promo_code}}'',
                        ''last_name'' \<mapsto> JStr ''Doe'']"

definition demo_tables :: "string \<Rightarrow> obj list" where
  "demo_tables t =
     (if t = ''campaigns'' then [demo_campaign, demo_cancelled]
      else if t = ''campaign_messages'' then [demo_message]
      else if t = ''customers'' then [demo_customer, demo_odd_customer]
      else if t = ''restaurants'' then [[''id'' \<mapsto> JStr ''r1'', ''name'' \<mapsto> JStr ''Luigi'']]
      else if t = ''customer_tags'' then [[''id'' \<mapsto> JStr ''t1'', ''name'' \<mapsto> JStr ''vip'']]
      else if t = ''customer_tag_assignments''
        then [[''customer_id'' \<mapsto> JStr ''k1'', ''tag_id'' \<mapsto> JStr ''t1'']]
      else if t = ''campaign_audit_log''
        then [audit_entry (JStr ''c1'') ''created'' JNull Map.empty]
      else [])"

definition demo_store :: store where
  "demo_store =
     \<lparr>tables = demo_tables,
      auth_user = Some ''u1'',
      fault = (\<lambda>c. None),
      server_defaults = (\<lambda>t n. [''id'' \<mapsto> JStr (''new'' @ replicate n CHR ''+'')]),
      serial = 0,
      calls = []\<rparr>"

text \<open>The same store, answering every insert into the audit log with the error \<open>e\<close>.\<close>

definition audit_log_refused :: "string \<Rightarrow> store \<Rightarrow> store" where
  "audit_log_refused e s =
     s\<lparr>fault := (\<lambda>c. case c of
                     Insert t p \<Rightarrow> if t = ''campaign_audit_log'' then Some e else fault s c
                   | _ \<Rightarrow> fault s c)\<rparr>"

text \<open>The same store, answering the request \<open>c\<close> with the error \<open>e\<close>.\<close>

definition refusing :: "call \<Rightarrow> string \<Rightarrow> store \<Rightarrow> store" where
  "refusing c e s = s\<lparr>fault := (fault s)(c \<mapsto> e)\<rparr>"


section \<open>Auxiliary facts\<close>

lemmas store_defs = auth_getUser_def db_insert_def db_update_def db_delete_def db_select_def
  log_call_def logAuditAction_def single_def maybeSingle_def

lemma wire_val_undefined [simp]: "wire_val v = JUndefined \<longleftrightarrow> v = JUndefined"
  by (cases v) auto

lemma wire_empty [simp]: "wire Map.empty = Map.empty"
  by (simp add: wire_def)

lemma wire_upd:
  "wire (m(k \<mapsto> v)) = (if v = JUndefined then (wire m)(k := None) else (wire m)(k \<mapsto> wire_val v))"
  by (auto simp: wire_def fun_eq_iff split: option.splits jval.splits)

lemma wire_apply: "wire m k = (case m k of None \<Rightarrow> None | Some v \<Rightarrow> if v = JUndefined then None else Some (wire_val v))"
  by (auto simp: wire_def split: option.splits jval.splits)

lemma createCampaign_calls:
  "createCampaign c s = (Return d, s') \<Longrightarrow>
     calls s' = calls s @
       [AuthGetUser,
        Insert ''campaigns'' (c(''created_by'' \<mapsto> id_or_undefined (fst (auth_getUser s)))),
        Insert ''campaign_audit_log''
          (audit_entry (field d ''id'') ''created'' (id_or_null (fst (auth_getUser s))) Map.empty)]"
  by (auto simp: createCampaign_def store_defs Let_def split: option.splits list.splits response.splits)

lemma updateCampaign_calls:
  "updateCampaign cid u s = (Return d, s') \<Longrightarrow>
     calls s' = calls s @
       [AuthGetUser,
        Update ''campaigns'' u [(''id'', JStr cid)],
        Insert ''campaign_audit_log''
          (audit_entry (JStr cid) ''edited'' (id_or_null (fst (auth_getUser s))) u)]"
  by (auto simp: updateCampaign_def store_defs Let_def split: option.splits list.splits response.splits)

lemma scheduleCampaign_calls:
  "scheduleCampaign cid at s = (Return d, s') \<Longrightarrow>
     calls s' = calls s @
       [AuthGetUser,
        Update ''campaigns'' [''status'' \<mapsto> JStr ''scheduled'', ''scheduled_at'' \<mapsto> JStr at]
          [(''id'', JStr cid)],
        Insert ''campaign_audit_log''
          (audit_entry (JStr cid) ''scheduled'' (id_or_null (fst (auth_getUser s)))
             [''scheduled_at'' \<mapsto> JStr at])]"
  by (auto simp: scheduleCampaign_def store_defs Let_def split: option.splits list.splits response.splits)

lemma cancelCampaign_calls:
  "cancelCampaign cid s = (Return d, s') \<Longrightarrow>
     calls s' = calls s @
       [AuthGetUser,
        Update ''campaigns'' [''status'' \<mapsto> JStr ''cancelled''] [(''id'', JStr cid)],
        Insert ''campaign_audit_log''
          (audit_entry (JStr cid) ''cancelled'' (id_or_null (fst (auth_getUser s))) Map.empty)]"
  by (auto simp: cancelCampaign_def store_defs Let_def split: option.splits list.splits response.splits)

lemma pauseCampaign_calls:
  "pauseCampaign cid s = (Return d, s') \<Longrightarrow>
     calls s' = calls s @
       [AuthGetUser,
        Update ''campaigns'' [''status'' \<mapsto> JStr ''paused''] [(''id'', JStr cid)],
        Insert ''campaign_audit_log''
          (audit_entry (JStr cid) ''paused'' (id_or_null (fst (auth_getUser s))) Map.empty)]"
  by (auto simp: pauseCampaign_def store_defs Let_def split: option.splits list.splits response.splits)

lemma resumeCampaign_calls:
  "resumeCampaign cid s = (Return d, s') \<Longrightarrow>
     calls s' = calls s @
       [AuthGetUser,
        Update ''campaigns'' [''status'' \<mapsto> JStr ''scheduled''] [(''id'', JStr cid)],
        Insert ''campaign_audit_log''
          (audit_entry (JStr cid) ''resumed'' (id_or_null (fst (auth_getUser s))) Map.empty)]"
  by (auto simp: resumeCampaign_def store_defs Let_def split: option.splits list.splits response.splits)

lemma matches_id [simp]: "matches [(k, v)] row \<longleftrightarrow> row k = Some v"
  by (simp add: matches_def)

lemma demo_returns:
  "fst (createCampaign [''name'' \<mapsto> JStr ''Autumn''] demo_store)
     = Return [''id'' \<mapsto> JStr ''new'', ''name'' \<mapsto> JStr ''Autumn'', ''created_by'' \<mapsto> JStr ''u1'']"
  "fst (updateCampaign ''c1'' [''name'' \<mapsto> JStr ''Autumn''] demo_store)
     = Return (demo_campaign(''name'' \<mapsto> JStr ''Autumn''))"
  "fst (scheduleCampaign ''c1'' ''2030-01-01T09:00:00Z'' demo_store)
     = Return (demo_campaign(''status'' \<mapsto> JStr ''scheduled'',
                 ''scheduled_at'' \<mapsto> JStr ''2030-01-01T09:00:00Z''))"
  "fst (cancelCampaign ''c1'' demo_store) = Return (demo_campaign(''status'' \<mapsto> JStr ''cancelled''))"
  "fst (pauseCampaign ''c1'' demo_store) = Return (demo_campaign(''status'' \<mapsto> JStr ''paused''))"
  "fst (resumeCampaign ''c1'' demo_store) = Return (demo_campaign(''status'' \<mapsto> JStr ''scheduled''))"
  by (auto simp: createCampaign_def updateCampaign_def scheduleCampaign_def cancelCampaign_def
      pauseCampaign_def resumeCampaign_def store_defs demo_store_def demo_tables_def
      demo_campaign_def demo_cancelled_def Let_def
      wire_upd fun_eq_iff map_add_def id_or_undefined_def split: option.splits)

lemma wire_single_str [simp]: "wire [k \<mapsto> JStr v] = [k \<mapsto> JStr v]"
  by (simp add: wire_upd)

lemma matches_single: "matches [(k, v)] = (\<lambda>row. row k = Some v)"
  by (simp add: fun_eq_iff matches_def)

lemma wire_created_by:
  "wire (c(''created_by'' \<mapsto> id_or_undefined uid)) ''created_by'' = map_option JStr uid"
  by (cases uid) (simp_all add: wire_upd id_or_undefined_def)

lemma log_call_fields [simp]:
  "tables (log_call c s) = tables s"
  "auth_user (log_call c s) = auth_user s"
  "fault (log_call c s) = fault s"
  "server_defaults (log_call c s) = server_defaults s"
  "serial (log_call c s) = serial s"
  "calls (log_call c s) = calls s @ [c]"
  by (simp_all add: log_call_def)

lemma auth_getUser_fst:
  "fst (auth_getUser s) = (case fault s AuthGetUser of Some e \<Rightarrow> None | None \<Rightarrow> auth_user s)"
  by (simp add: auth_getUser_def)

lemma auth_getUser_snd: "snd (auth_getUser s) = log_call AuthGetUser s"
  by (simp add: auth_getUser_def)

lemma db_select_fst:
  "fst (db_select t cols fs s)
     = (case fault s (Select t cols fs) of Some e \<Rightarrow> Failed e
        | None \<Rightarrow> Ok (filter (matches fs) (tables s t)))"
  by (simp add: db_select_def Let_def)

lemma db_select_snd: "snd (db_select t cols fs s) = log_call (Select t cols fs) s"
  by (simp add: db_select_def Let_def)

lemma logAuditAction_fields:
  "tables (logAuditAction cid a p ch s)
     = (case fault s (Insert ''campaign_audit_log'' (audit_entry cid a p ch)) of
          Some e \<Rightarrow> tables s
        | None \<Rightarrow> (tables s)(''campaign_audit_log'' :=
                     tables s ''campaign_audit_log''
                       @ [server_defaults s ''campaign_audit_log'' (serial s)
                            ++ wire (audit_entry cid a p ch)]))"
  "calls (logAuditAction cid a p ch s)
     = calls s @ [Insert ''campaign_audit_log'' (audit_entry cid a p ch)]"
  "fault (logAuditAction cid a p ch s) = fault s"
  "auth_user (logAuditAction cid a p ch s) = auth_user s"
  "server_defaults (logAuditAction cid a p ch s) = server_defaults s"
  by (simp_all add: logAuditAction_def db_insert_def Let_def split: option.splits)

lemma getCampaign_fst:
  "fst (getCampaign cid s)
     = (case fault s (Select ''campaigns'' ''*'' [(''id'', JStr cid)]) of
          Some e \<Rightarrow> Throw (Error e)
        | None \<Rightarrow>
            (case filter (\<lambda>r. r ''id'' = Some (JStr cid)) (tables s ''campaigns'') of
               [] \<Rightarrow> Return None
             | [r] \<Rightarrow> Return (Some r)
             | _ \<Rightarrow> Throw (Error row_count_error)))"
  by (simp add: getCampaign_def db_select_def maybeSingle_def matches_single Let_def
      split: option.splits list.splits)

lemma getCampaign_snd:
  "snd (getCampaign cid s) = log_call (Select ''campaigns'' ''*'' [(''id'', JStr cid)]) s"
  by (simp add: getCampaign_def db_select_def Let_def split: response.splits)

lemma getCampaignMessages_fst:
  "fst (getCampaignMessages cid s)
     = (case fault s (Select ''campaign_messages'' ''*'' [(''campaign_id'', JStr cid)]) of
          Some e \<Rightarrow> Throw (Error e)
        | None \<Rightarrow> Return (filter (\<lambda>r. r ''campaign_id'' = Some (JStr cid))
                            (tables s ''campaign_messages'')))"
  by (simp add: getCampaignMessages_def db_select_def matches_single Let_def split: option.splits)

lemma getCampaignMessages_snd:
  "snd (getCampaignMessages cid s)
     = log_call (Select ''campaign_messages'' ''*'' [(''campaign_id'', JStr cid)]) s"
  by (simp add: getCampaignMessages_def db_select_def Let_def split: response.splits)

text \<open>previewCampaign, with the pairs taken apart.\<close>

lemma previewCampaign_unfold:
  "previewCampaign cid cu s =
     (let s1 = snd (getCampaign cid s); s2 = snd (getCampaignMessages cid s1);
          s3 = log_call (Select ''customers'' ''*'' [(''id'', JStr cu)]) s2 in
      case fst (getCampaign cid s) of
        Throw x \<Rightarrow> (Throw x, s1)
      | Return c \<Rightarrow>
     (case fst (getCampaignMessages cid s1) of
        Throw x \<Rightarrow> (Throw x, s2)
      | Return msgs \<Rightarrow>
     (case c of
        None \<Rightarrow> (Throw (Error ''Campaign or messages not found''), s2)
      | Some camp \<Rightarrow>
          if msgs = [] then (Throw (Error ''Campaign or messages not found''), s2)
          else
            (case data_of (single (fst (db_select ''customers'' ''*'' [(''id'', JStr cu)] s2))) of
               None \<Rightarrow> (Throw (Error ''Customer not found''), s3)
             | Some cust \<Rightarrow>
                 let sel = Select ''restaurants'' ''*'' [(''id'', field camp ''restaurant_id'')];
                     s4 = log_call sel s3;
                     restaurant = data_of (single (fst (db_select ''restaurants'' ''*''
                                     [(''id'', field camp ''restaurant_id'')] s3)))
                 in (case those (map (render_message cust restaurant) msgs) of
                       None \<Rightarrow> (Throw TypeError, s4)
                     | Some rendered \<Rightarrow>
                         (Return \<lparr>campaign = camp, messages = rendered, customer = cust\<rparr>,
                          logAuditAction (JStr cid) ''preview''
                            (id_or_null (fst (auth_getUser s4)))
                            [''customer_id'' \<mapsto> JStr cu] (log_call AuthGetUser s4)))))))"
  by (simp add: previewCampaign_def Let_def case_prod_beta db_select_snd auth_getUser_snd
      split: outcome.splits option.splits prod.splits)

lemma refused_fields [simp]:
  "tables (audit_log_refused e s) = tables s"
  "auth_user (audit_log_refused e s) = auth_user s"
  "server_defaults (audit_log_refused e s) = server_defaults s"
  "serial (audit_log_refused e s) = serial s"
  "calls (audit_log_refused e s) = calls s"
  "fault (audit_log_refused e s) AuthGetUser = fault s AuthGetUser"
  "fault (audit_log_refused e s) (Select t cols fs) = fault s (Select t cols fs)"
  "fault (audit_log_refused e s) (Update t p fs) = fault s (Update t p fs)"
  "fault (audit_log_refused e s) (Insert ''campaigns'' p) = fault s (Insert ''campaigns'' p)"
  "fault (audit_log_refused e s) (Insert ''campaign_audit_log'' p) = Some e"
  by (simp_all add: audit_log_refused_def)

lemma createCampaign_audit_refused:
  "fst (createCampaign c (audit_log_refused e s)) = fst (createCampaign c s)
   \<and> tables (snd (createCampaign c (audit_log_refused e s)))
       = (tables (snd (createCampaign c s)))(''campaign_audit_log'' := tables s ''campaign_audit_log'')"
  by (auto simp: createCampaign_def store_defs Let_def fun_eq_iff split: option.splits list.splits response.splits)

lemma updateCampaign_audit_refused:
  "fst (updateCampaign cid u (audit_log_refused e s)) = fst (updateCampaign cid u s)
   \<and> tables (snd (updateCampaign cid u (audit_log_refused e s)))
       = (tables (snd (updateCampaign cid u s)))(''campaign_audit_log'' := tables s ''campaign_audit_log'')"
  by (auto simp: updateCampaign_def store_defs Let_def fun_eq_iff split: option.splits list.splits response.splits)


lemma scheduleCampaign_audit_refused:
  "fst (scheduleCampaign cid at (audit_log_refused e s)) = fst (scheduleCampaign cid at s)
   \<and> tables (snd (scheduleCampaign cid at (audit_log_refused e s)))
       = (tables (snd (scheduleCampaign cid at s)))(''campaign_audit_log'' := tables s ''campaign_audit_log'')"
  by (auto simp: scheduleCampaign_def store_defs Let_def fun_eq_iff split: option.splits list.splits response.splits)

lemma cancelCampaign_audit_refused:
  "fst (cancelCampaign cid (audit_log_refused e s)) = fst (cancelCampaign cid s)
   \<and> tables (snd (cancelCampaign cid (audit_log_refused e s)))
       = (tables (snd (cancelCampaign cid s)))(''campaign_audit_log'' := tables s ''campaign_audit_log'')"
  by (auto simp: cancelCampaign_def store_defs Let_def fun_eq_iff split: option.splits list.splits response.splits)

lemma pauseCampaign_audit_refused:
  "fst (pauseCampaign cid (audit_log_refused e s)) = fst (pauseCampaign cid s)
   \<and> tables (snd (pauseCampaign cid (audit_log_refused e s)))
       = (tables (snd (pauseCampaign cid s)))(''campaign_audit_log'' := tables s ''campaign_audit_log'')"
  by (auto simp: pauseCampaign_def store_defs Let_def fun_eq_iff split: option.splits list.splits response.splits)

lemma resumeCampaign_audit_refused:
  "fst (resumeCampaign cid (audit_log_refused e s)) = fst (resumeCampaign cid s)
   \<and> tables (snd (resumeCampaign cid (audit_log_refused e s)))
       = (tables (snd (resumeCampaign cid s)))(''campaign_audit_log'' := tables s ''campaign_audit_log'')"
  by (auto simp: resumeCampaign_def store_defs Let_def fun_eq_iff split: option.splits list.splits response.splits)

lemma previewCampaign_audit_refused:
  "fst (previewCampaign cid cu (audit_log_refused e s)) = fst (previewCampaign cid cu s)
   \<and> tables (snd (previewCampaign cid cu (audit_log_refused e s)))
       = (tables (snd (previewCampaign cid cu s)))(''campaign_audit_log'' := tables s ''campaign_audit_log'')"
proof -
  let ?r = "audit_log_refused e s"
  have g: "fst (getCampaign cid ?r) = fst (getCampaign cid s)"
    by (simp add: getCampaign_fst split: option.splits)
  have m: "fst (getCampaignMessages cid (snd (getCampaign cid ?r)))
             = fst (getCampaignMessages cid (snd (getCampaign cid s)))"
    by (simp add: getCampaignMessages_fst getCampaign_snd split: option.splits)
  have k: "\<And>t fs. fst (db_select t ''*'' fs (snd (getCampaignMessages cid (snd (getCampaign cid ?r)))))
             = fst (db_select t ''*'' fs (snd (getCampaignMessages cid (snd (getCampaign cid s)))))"
    by (simp add: db_select_fst getCampaignMessages_snd getCampaign_snd split: option.splits)
  have r: "\<And>t fs c. fst (db_select t ''*'' fs
               (log_call c (snd (getCampaignMessages cid (snd (getCampaign cid ?r))))))
             = fst (db_select t ''*'' fs
               (log_call c (snd (getCampaignMessages cid (snd (getCampaign cid s))))))"
    by (simp add: db_select_fst getCampaignMessages_snd getCampaign_snd split: option.splits)
  have u: "\<And>c c'. fst (auth_getUser (log_call c (log_call c'
               (snd (getCampaignMessages cid (snd (getCampaign cid ?r)))))))
             = fst (auth_getUser (log_call c (log_call c'
               (snd (getCampaignMessages cid (snd (getCampaign cid s)))))))"
    by (simp add: auth_getUser_fst getCampaignMessages_snd getCampaign_snd split: option.splits)
  have t: "\<And>c. tables (snd (getCampaignMessages cid (snd (getCampaign cid c)))) = tables c"
    by (simp add: getCampaignMessages_snd getCampaign_snd)
  have f: "\<And>p. fault (snd (getCampaignMessages cid (snd (getCampaign cid ?r))))
               (Insert ''campaign_audit_log'' p) = Some e"
    by (simp add: getCampaignMessages_snd getCampaign_snd)
  have gs: "tables (snd (getCampaign cid ?r)) = tables s" "tables (snd (getCampaign cid s)) = tables s"
    by (simp_all add: getCampaign_snd)
  show ?thesis
    unfolding previewCampaign_unfold Let_def g m k r u
    by (simp add: logAuditAction_fields t f gs split: outcome.splits option.splits)
qed

lemma get_substitution_plain:
  "CHR ''$'' \<notin> set v \<Longrightarrow> get_substitution m b a v = v"
  by (induction m b a v rule: get_substitution.induct) auto

lemma replace_from_plain:
  "CHR ''$'' \<notin> set v \<Longrightarrow> replace_from tok v b s = replace_all tok v s"
  by (induction tok v b s rule: replace_from.induct) (simp_all add: get_substitution_plain)

lemma replace_from_absent:
  "\<not> occurs tok s \<Longrightarrow> replace_from tok v b s = s"
  by (induction s arbitrary: b) simp_all

lemma render_plain:
  assumes "CHR ''$'' \<notin> set (customer_full_name cust)"
    and "CHR ''$'' \<notin> set (restaurant_name_or_empty restaurant)"
  shows "render cust restaurant t
     = replace_all ''{{promo_code}}'' ''PREVIEW-CODE''
         (replace_all ''{{restaurant_name}}'' (restaurant_name_or_empty restaurant)
            (replace_all ''{{customer_name}}'' (customer_full_name cust) t))"
  using assms by (simp add: render_def js_replace_def replace_from_plain)

lemma render_untouched:
  assumes "\<not> occurs ''{{customer_name}}'' t" and "\<not> occurs ''{{restaurant_name}}'' t"
    and "\<not> occurs ''{{promo_code}}'' t"
  shows "render cust restaurant t = t"
  using assms by (simp add: render_def js_replace_def replace_from_absent)

lemma those_map_all2:
  "those (map f xs) = Some ys \<Longrightarrow> list_all2 (\<lambda>x y. f x = Some y) xs ys"
  by (induction xs arbitrary: ys) (auto split: option.splits)

lemma render_message_Some:
  "render_message cust restaurant msg = Some out \<Longrightarrow>
     \<exists>t. msg ''message_template'' = Some (JStr t)
        \<and> out = msg(''rendered_message'' \<mapsto> JStr (render cust restaurant t))"
  by (auto simp: render_message_def field_def split: option.splits jval.splits)

lemma demo_render:
  "render demo_customer (Some [''id'' \<mapsto> JStr ''r1'', ''name'' \<mapsto> JStr ''Luigi''])
     ''Hi {{customer_name}}: {{promo_code}} at {{restaurant_name}} {{unknown}}''
   = ''Hi Ann Lee: PREVIEW-CODE at Luigi {{unknown}}''"
  "render demo_odd_customer (Some [''id'' \<mapsto> JStr ''r1'', ''name'' \<mapsto> JStr ''Luigi''])
     ''Hi {{customer_name}}: {{promo_code}} at {{restaurant_name}} {{unknown}}''
   = ''Hi PREVIEW-CODE Doe: PREVIEW-CODE at Luigi {{unknown}}''"
  by (simp_all add: render_def js_replace_def customer_full_name_def restaurant_name_or_empty_def
      demo_customer_def demo_odd_customer_def field_def to_string_def truthy_def)

lemma demo_preview_tables:
  "filter (\<lambda>r. r ''id'' = Some (JStr ''c1'')) (tables demo_store ''campaigns'') = [demo_campaign]"
  "filter (\<lambda>r. r ''campaign_id'' = Some (JStr ''c1'')) (tables demo_store ''campaign_messages'')
     = [demo_message]"
  "filter (\<lambda>r. r ''id'' = Some (JStr ''k1'')) (tables demo_store ''customers'') = [demo_customer]"
  "filter (\<lambda>r. r ''id'' = Some (JStr ''k2'')) (tables demo_store ''customers'') = [demo_odd_customer]"
  "filter (\<lambda>r. r ''id'' = Some (JStr ''r1'')) (tables demo_store ''restaurants'')
     = [[''id'' \<mapsto> JStr ''r1'', ''name'' \<mapsto> JStr ''Luigi'']]"
  "fault demo_store = (\<lambda>c. None)"
  "field demo_campaign ''restaurant_id'' = JStr ''r1''"
  "field demo_message ''message_template''
     = JStr ''Hi {{customer_name}}: {{promo_code}} at {{restaurant_name}} {{unknown}}''"
  by (simp_all add: demo_store_def demo_tables_def demo_campaign_def demo_cancelled_def
      demo_message_def demo_customer_def demo_odd_customer_def field_def)

lemma demo_preview:
  "fst (previewCampaign ''c1'' ''k1'' demo_store)
     = Return \<lparr>campaign = demo_campaign,
               messages = [demo_message(''rendered_message'' \<mapsto>
                             JStr ''Hi Ann Lee: PREVIEW-CODE at Luigi {{unknown}}'')],
               customer = demo_customer\<rparr>"
  "fst (previewCampaign ''c1'' ''k2'' demo_store)
     = Return \<lparr>campaign = demo_campaign,
               messages = [demo_message(''rendered_message'' \<mapsto>
                             JStr ''Hi PREVIEW-CODE Doe: PREVIEW-CODE at Luigi {{unknown}}'')],
               customer = demo_odd_customer\<rparr>"
  by (simp_all add: previewCampaign_unfold getCampaign_fst getCampaign_snd getCampaignMessages_fst
      getCampaignMessages_snd db_select_fst matches_single single_def data_of_def Let_def
      demo_preview_tables render_message_def demo_render)

lemma previewCampaign_returns:
  assumes "previewCampaign cid cu s = (Return p, s')"
  obtains camp msgs cust rendered where
    "fst (getCampaign cid s) = Return (Some camp)"
    "fst (getCampaignMessages cid (snd (getCampaign cid s))) = Return msgs"
    "msgs \<noteq> []"
    "data_of (single (fst (db_select ''customers'' ''*'' [(''id'', JStr cu)]
        (snd (getCampaignMessages cid (snd (getCampaign cid s))))))) = Some cust"
    "those (map (render_message cust
        (data_of (single (fst (db_select ''restaurants'' ''*''
           [(''id'', field camp ''restaurant_id'')]
           (log_call (Select ''customers'' ''*'' [(''id'', JStr cu)])
              (snd (getCampaignMessages cid (snd (getCampaign cid s)))))))))) msgs)
      = Some rendered"
    "p = \<lparr>campaign = camp, messages = rendered, customer = cust\<rparr>"
    "s' = logAuditAction (JStr cid) ''preview''
            (id_or_null (fst (auth_getUser
               (log_call (Select ''restaurants'' ''*'' [(''id'', field camp ''restaurant_id'')])
                  (log_call (Select ''customers'' ''*'' [(''id'', JStr cu)])
                     (snd (getCampaignMessages cid (snd (getCampaign cid s)))))))))
            [''customer_id'' \<mapsto> JStr cu]
            (log_call AuthGetUser
               (log_call (Select ''restaurants'' ''*'' [(''id'', field camp ''restaurant_id'')])
                  (log_call (Select ''customers'' ''*'' [(''id'', JStr cu)])
                     (snd (getCampaignMessages cid (snd (getCampaign cid s)))))))"
proof -
  let ?g = "fst (getCampaign cid s)"
  let ?s2 = "snd (getCampaignMessages cid (snd (getCampaign cid s)))"
  let ?m = "fst (getCampaignMessages cid (snd (getCampaign cid s)))"
  let ?k = "data_of (single (fst (db_select ''customers'' ''*'' [(''id'', JStr cu)] ?s2)))"
  note u = previewCampaign_unfold Let_def
  obtain c where g: "?g = Return c"
    using assms by (cases ?g) (simp_all add: u)
  obtain msgs where m: "?m = Return msgs"
    using assms g by (cases ?m) (simp_all add: u)
  obtain camp where c: "c = Some camp"
    using assms g m by (cases c) (simp_all add: u)
  have ne: "msgs \<noteq> []"
    using assms g m c by (cases "msgs = []") (simp_all add: u)
  obtain cust where k: "?k = Some cust"
    using assms g m c ne by (cases ?k) (simp_all add: u)
  let ?r = "those (map (render_message cust
        (data_of (single (fst (db_select ''restaurants'' ''*''
           [(''id'', field camp ''restaurant_id'')]
           (log_call (Select ''customers'' ''*'' [(''id'', JStr cu)]) ?s2)))))) msgs)"
  obtain rendered where r: "?r = Some rendered"
    using assms g m c ne k by (cases ?r) (simp_all add: u)
  have "p = \<lparr>campaign = camp, messages = rendered, customer = cust\<rparr>"
    and "s' = logAuditAction (JStr cid) ''preview''
            (id_or_null (fst (auth_getUser
               (log_call (Select ''restaurants'' ''*'' [(''id'', field camp ''restaurant_id'')])
                  (log_call (Select ''customers'' ''*'' [(''id'', JStr cu)]) ?s2)))))
            [''customer_id'' \<mapsto> JStr cu]
            (log_call AuthGetUser
               (log_call (Select ''restaurants'' ''*'' [(''id'', field camp ''restaurant_id'')])
                  (log_call (Select ''customers'' ''*'' [(''id'', JStr cu)]) ?s2)))"
    using assms g m c ne k r by (simp_all add: u)
  with g m c ne k r that show thesis by blast
qed

lemma previewCampaign_needs_all:
  assumes "filter (\<lambda>r. r ''id'' = Some (JStr cid)) (tables s ''campaigns'') = []
           \<or> filter (\<lambda>r. r ''campaign_id'' = Some (JStr cid)) (tables s ''campaign_messages'') = []
           \<or> filter (\<lambda>r. r ''id'' = Some (JStr cu)) (tables s ''customers'') = []"
  shows "fst (previewCampaign cid cu s) \<noteq> Return p"
proof
  assume "fst (previewCampaign cid cu s) = Return p"
  then have "previewCampaign cid cu s = (Return p, snd (previewCampaign cid cu s))"
    by (simp add: prod_eq_iff)
  then obtain camp msgs cust where
    c: "fst (getCampaign cid s) = Return (Some camp)"
    and m: "fst (getCampaignMessages cid (snd (getCampaign cid s))) = Return msgs"
    and ne: "msgs \<noteq> []"
    and k: "data_of (single (fst (db_select ''customers'' ''*'' [(''id'', JStr cu)]
        (snd (getCampaignMessages cid (snd (getCampaign cid s))))))) = Some cust"
    by (rule previewCampaign_returns)
  from c have "filter (\<lambda>r. r ''id'' = Some (JStr cid)) (tables s ''campaigns'') \<noteq> []"
    by (auto simp: getCampaign_fst split: option.splits)
  moreover from m ne
  have "filter (\<lambda>r. r ''campaign_id'' = Some (JStr cid)) (tables s ''campaign_messages'') \<noteq> []"
    by (auto simp: getCampaignMessages_fst getCampaign_snd split: option.splits)
  moreover from k have "filter (\<lambda>r. r ''id'' = Some (JStr cu)) (tables s ''customers'') \<noteq> []"
    by (auto simp: db_select_fst getCampaignMessages_snd getCampaign_snd matches_single
        single_def data_of_def split: option.splits)
  ultimately show False using assms by blast
qed

lemma filter_map_if:
  assumes "\<And>x. P x \<Longrightarrow> P (f x)"
  shows "filter P (map (\<lambda>x. if P x then f x else x) xs) = map f (filter P xs)"
  using assms by (induction xs) auto

lemma consent_payload_key:
  assumes "p ''customer_id'' = None" and "p ''restaurant_id'' = None"
  shows "wire (consent_payload c r p) ''customer_id'' = Some (JStr c)"
    and "wire (consent_payload c r p) ''restaurant_id'' = Some (JStr r)"
  using assms by (simp_all add: consent_payload_def wire_apply map_add_def)

lemma consent_same_key:
  assumes "p ''customer_id'' = None" and "p ''restaurant_id'' = None"
  shows "same_key (conflict_key ''customer_consent'') (wire (consent_payload c r p))
         = (\<lambda>row. row ''customer_id'' = Some (JStr c) \<and> row ''restaurant_id'' = Some (JStr r))"
  using consent_payload_key [OF assms, of c r]
  by (simp add: same_key_def conflict_key_def fun_eq_iff)

lemma updateCustomerConsent_step:
  assumes nk: "p ''customer_id'' = None" "p ''restaurant_id'' = None"
    and ok: "fault s (Upsert ''customer_consent'' (consent_payload c r p)) = None"
    and uniq: "length (consent_rows c r s) \<le> 1"
  shows "fst (updateCustomerConsent c r p s)
           = Return ((case consent_rows c r s of
                        [] \<Rightarrow> server_defaults s ''customer_consent'' (serial s)
                      | row # rest \<Rightarrow> row)
                     ++ wire (consent_payload c r p))"
    and "consent_rows c r (snd (updateCustomerConsent c r p s))
         = [(case consent_rows c r s of
               [] \<Rightarrow> server_defaults s ''customer_consent'' (serial s)
             | row # rest \<Rightarrow> row)
            ++ wire (consent_payload c r p)]"
    and "fault (snd (updateCustomerConsent c r p s)) = fault s"
proof -
  let ?K = "\<lambda>row. row ''customer_id'' = Some (JStr c) \<and> row ''restaurant_id'' = Some (JStr r)"
  let ?P = "wire (consent_payload c r p)"
  let ?rows = "tables s ''customer_consent''"
  note key = consent_payload_key [OF nk, of c r]
  note sk = consent_same_key [OF nk, of c r]
  have keep: "?K (row ++ ?P)" for row :: obj
    using key by (simp add: map_add_def)
  show "fault (snd (updateCustomerConsent c r p s)) = fault s"
    by (simp add: updateCustomerConsent_def db_upsert_def Let_def case_prod_beta
        split: option.splits response.splits)
  consider (new) "filter ?K ?rows = []" | (old) x where "filter ?K ?rows = [x]"
    using uniq unfolding consent_rows_def
    by (cases "filter ?K ?rows") (auto simp: length_Suc_conv)
  then have "fst (updateCustomerConsent c r p s)
           = Return ((case filter ?K ?rows of
                        [] \<Rightarrow> server_defaults s ''customer_consent'' (serial s)
                      | row # rest \<Rightarrow> row) ++ ?P)
      \<and> filter ?K (tables (snd (updateCustomerConsent c r p s)) ''customer_consent'')
         = [(case filter ?K ?rows of
                        [] \<Rightarrow> server_defaults s ''customer_consent'' (serial s)
                      | row # rest \<Rightarrow> row) ++ ?P]"
  proof cases
    case new
    then have none: "\<not> list_ex ?K ?rows"
      by (simp add: list_ex_iff filter_empty_conv)
    show ?thesis
      using ok new none keep
      by (simp add: updateCustomerConsent_def db_upsert_def Let_def sk single_def)
  next
    case old
    then have "x \<in> set (filter ?K ?rows)"
      by simp
    then have some: "list_ex ?K ?rows"
      unfolding list_ex_iff by auto
    have upd: "filter ?K (map (\<lambda>row. if ?K row then row ++ ?P else row) ?rows)
                 = map (\<lambda>row. row ++ ?P) (filter ?K ?rows)"
      by (rule filter_map_if) (rule keep)
    show ?thesis
      using ok old some upd
      by (simp add: updateCustomerConsent_def db_upsert_def Let_def sk single_def)
  qed
  then show "fst (updateCustomerConsent c r p s)
           = Return ((case consent_rows c r s of
                        [] \<Rightarrow> server_defaults s ''customer_consent'' (serial s)
                      | row # rest \<Rightarrow> row) ++ ?P)"
    and "consent_rows c r (snd (updateCustomerConsent c r p s))
         = [(case consent_rows c r s of
                        [] \<Rightarrow> server_defaults s ''customer_consent'' (serial s)
                      | row # rest \<Rightarrow> row) ++ ?P]"
    by (simp_all add: consent_rows_def)
qed

lemma unwrap_embedded:
  "map (\<lambda>item. field item rel) (List.map_filter (embed s rel fk) xs)
     = map JObj (List.map_filter
                   (\<lambda>a. case a fk of None \<Rightarrow> None
                         | Some v \<Rightarrow> find (\<lambda>r. r ''id'' = Some v) (tables s rel)) xs)"
  by (induction xs) (auto simp: List.map_filter_simps embed_def field_def split: option.splits)

lemma referenced_tag_stored:
  "tag \<in> set (List.map_filter
                 (\<lambda>a. case a fk of None \<Rightarrow> None
                       | Some v \<Rightarrow> find (\<lambda>r. r ''id'' = Some v) rows) xs) \<Longrightarrow> tag \<in> set rows"
  by (induction xs) (auto simp: List.map_filter_simps find_Some_iff split: option.splits)


section \<open>Audit trail of the mutating operations\<close>

text \<open>
  Claim C1. Whenever \<open>createCampaign\<close>, \<open>updateCampaign\<close>, \<open>scheduleCampaign\<close>,
  \<open>cancelCampaign\<close>, \<open>pauseCampaign\<close> or \<open>resumeCampaign\<close> returns, that is, whenever
  its primary write succeeded, the requests it sent to the store are, in this order, the
  identity lookup, the primary write, and exactly one insert into \<open>campaign_audit_log\<close>
  whose action label is \<open>created\<close>, \<open>edited\<close>, \<open>scheduled\<close>, \<open>cancelled\<close>, \<open>paused\<close>
  or \<open>resumed\<close> respectively. The entry inserted is written out in full: the campaign
  id, the action label, the performer (the user id, or \<open>null\<close> when there is none) and the
  changes. For \<open>updateCampaign\<close> the \<open>changes\<close> of that entry are the patch object the
  caller passed, not a difference against the stored row.
\<close>

theorem audit_insert_follows_primary_write:
  assumes who: "who = (case fst (auth_getUser s) of
                         None \<Rightarrow> JNull
                       | Some uid \<Rightarrow> if uid = [] then JNull else JStr uid)"
  shows "(createCampaign c s = (Return d1, s1) \<longrightarrow>
      calls s1 = calls s @
        [AuthGetUser,
         Insert ''campaigns'' (c(''created_by'' \<mapsto> id_or_undefined (fst (auth_getUser s)))),
         Insert ''campaign_audit_log''
           [''campaign_id'' \<mapsto> field d1 ''id'', ''action'' \<mapsto> JStr ''created'',
            ''performed_by'' \<mapsto> who, ''changes'' \<mapsto> JObj Map.empty]])
   \<and> (updateCampaign cid u s = (Return d2, s2) \<longrightarrow>
      calls s2 = calls s @
        [AuthGetUser,
         Update ''campaigns'' u [(''id'', JStr cid)],
         Insert ''campaign_audit_log''
           [''campaign_id'' \<mapsto> JStr cid, ''action'' \<mapsto> JStr ''edited'',
            ''performed_by'' \<mapsto> who, ''changes'' \<mapsto> JObj u]])
   \<and> (scheduleCampaign cid at s = (Return d3, s3) \<longrightarrow>
      calls s3 = calls s @
        [AuthGetUser,
         Update ''campaigns'' [''status'' \<mapsto> JStr ''scheduled'', ''scheduled_at'' \<mapsto> JStr at]
           [(''id'', JStr cid)],
         Insert ''campaign_audit_log''
           [''campaign_id'' \<mapsto> JStr cid, ''action'' \<mapsto> JStr ''scheduled'',
            ''performed_by'' \<mapsto> who, ''changes'' \<mapsto> JObj [''scheduled_at'' \<mapsto> JStr at]]])
   \<and> (cancelCampaign cid s = (Return d4, s4) \<longrightarrow>
      calls s4 = calls s @
        [AuthGetUser,
         Update ''campaigns'' [''status'' \<mapsto> JStr ''cancelled''] [(''id'', JStr cid)],
         Insert ''campaign_audit_log''
           [''campaign_id'' \<mapsto> JStr cid, ''action'' \<mapsto> JStr ''cancelled'',
            ''performed_by'' \<mapsto> who, ''changes'' \<mapsto> JObj Map.empty]])
   \<and> (pauseCampaign cid s = (Return d5, s5) \<longrightarrow>
      calls s5 = calls s @
        [AuthGetUser,
         Update ''campaigns'' [''status'' \<mapsto> JStr ''paused''] [(''id'', JStr cid)],
         Insert ''campaign_audit_log''
           [''campaign_id'' \<mapsto> JStr cid, ''action'' \<mapsto> JStr ''paused'',
            ''performed_by'' \<mapsto> who, ''changes'' \<mapsto> JObj Map.empty]])
   \<and> (resumeCampaign cid s = (Return d6, s6) \<longrightarrow>
      calls s6 = calls s @
        [AuthGetUser,
         Update ''campaigns'' [''status'' \<mapsto> JStr ''scheduled''] [(''id'', JStr cid)],
         Insert ''campaign_audit_log''
           [''campaign_id'' \<mapsto> JStr cid, ''action'' \<mapsto> JStr ''resumed'',
            ''performed_by'' \<mapsto> who, ''changes'' \<mapsto> JObj Map.empty]])"
proof -
  have p: "id_or_null (fst (auth_getUser s)) = who"
    using who by (simp add: id_or_null_def id_or_undefined_def truthy_def split: option.splits)
  note sent = createCampaign_calls updateCampaign_calls scheduleCampaign_calls
    cancelCampaign_calls pauseCampaign_calls resumeCampaign_calls
  show ?thesis
    by (intro conjI impI; drule sent; simp add: audit_entry_def p)
qed

theorem audit_insert_follows_primary_write_witness:
  "createCampaign [''name'' \<mapsto> JStr ''Autumn''] demo_store
     = (Return [''id'' \<mapsto> JStr ''new'', ''name'' \<mapsto> JStr ''Autumn'', ''created_by'' \<mapsto> JStr ''u1''],
        snd (createCampaign [''name'' \<mapsto> JStr ''Autumn''] demo_store))
   \<and> calls (snd (createCampaign [''name'' \<mapsto> JStr ''Autumn''] demo_store))
     = [AuthGetUser,
        Insert ''campaigns'' [''name'' \<mapsto> JStr ''Autumn'', ''created_by'' \<mapsto> JStr ''u1''],
        Insert ''campaign_audit_log'' [''campaign_id'' \<mapsto> JStr ''new'', ''action'' \<mapsto> JStr ''created'',
            ''performed_by'' \<mapsto> JStr ''u1'', ''changes'' \<mapsto> JObj Map.empty]]
   \<and> updateCampaign ''c1'' [''name'' \<mapsto> JStr ''Autumn''] demo_store
     = (Return (demo_campaign(''name'' \<mapsto> JStr ''Autumn'')),
        snd (updateCampaign ''c1'' [''name'' \<mapsto> JStr ''Autumn''] demo_store))
   \<and> calls (snd (updateCampaign ''c1'' [''name'' \<mapsto> JStr ''Autumn''] demo_store))
     = [AuthGetUser,
        Update ''campaigns'' [''name'' \<mapsto> JStr ''Autumn''] [(''id'', JStr ''c1'')],
        Insert ''campaign_audit_log''
          [''campaign_id'' \<mapsto> JStr ''c1'', ''action'' \<mapsto> JStr ''edited'',
            ''performed_by'' \<mapsto> JStr ''u1'', ''changes'' \<mapsto> JObj [''name'' \<mapsto> JStr ''Autumn'']]]
   \<and> scheduleCampaign ''c1'' ''2030-01-01T09:00:00Z'' demo_store
     = (Return (demo_campaign(''status'' \<mapsto> JStr ''scheduled'',
                  ''scheduled_at'' \<mapsto> JStr ''2030-01-01T09:00:00Z'')),
        snd (scheduleCampaign ''c1'' ''2030-01-01T09:00:00Z'' demo_store))
   \<and> calls (snd (scheduleCampaign ''c1'' ''2030-01-01T09:00:00Z'' demo_store))
     = [AuthGetUser,
        Update ''campaigns''
          [''status'' \<mapsto> JStr ''scheduled'', ''scheduled_at'' \<mapsto> JStr ''2030-01-01T09:00:00Z'']
          [(''id'', JStr ''c1'')],
        Insert ''campaign_audit_log''
          [''campaign_id'' \<mapsto> JStr ''c1'', ''action'' \<mapsto> JStr ''scheduled'',
            ''performed_by'' \<mapsto> JStr ''u1'', ''changes'' \<mapsto> JObj [''scheduled_at'' \<mapsto> JStr ''2030-01-01T09:00:00Z'']]]
   \<and> cancelCampaign ''c1'' demo_store
     = (Return (demo_campaign(''status'' \<mapsto> JStr ''cancelled'')),
        snd (cancelCampaign ''c1'' demo_store))
   \<and> calls (snd (cancelCampaign ''c1'' demo_store))
     = [AuthGetUser,
        Update ''campaigns'' [''status'' \<mapsto> JStr ''cancelled''] [(''id'', JStr ''c1'')],
        Insert ''campaign_audit_log'' [''campaign_id'' \<mapsto> JStr ''c1'', ''action'' \<mapsto> JStr ''cancelled'',
            ''performed_by'' \<mapsto> JStr ''u1'', ''changes'' \<mapsto> JObj Map.empty]]
   \<and> pauseCampaign ''c1'' demo_store
     = (Return (demo_campaign(''status'' \<mapsto> JStr ''paused'')),
        snd (pauseCampaign ''c1'' demo_store))
   \<and> calls (snd (pauseCampaign ''c1'' demo_store))
     = [AuthGetUser,
        Update ''campaigns'' [''status'' \<mapsto> JStr ''paused''] [(''id'', JStr ''c1'')],
        Insert ''campaign_audit_log'' [''campaign_id'' \<mapsto> JStr ''c1'', ''action'' \<mapsto> JStr ''paused'',
            ''performed_by'' \<mapsto> JStr ''u1'', ''changes'' \<mapsto> JObj Map.empty]]
   \<and> resumeCampaign ''c1'' demo_store
     = (Return (demo_campaign(''status'' \<mapsto> JStr ''scheduled'')),
        snd (resumeCampaign ''c1'' demo_store))
   \<and> calls (snd (resumeCampaign ''c1'' demo_store))
     = [AuthGetUser,
        Update ''campaigns'' [''status'' \<mapsto> JStr ''scheduled''] [(''id'', JStr ''c1'')],
        Insert ''campaign_audit_log'' [''campaign_id'' \<mapsto> JStr ''c1'', ''action'' \<mapsto> JStr ''resumed'',
            ''performed_by'' \<mapsto> JStr ''u1'', ''changes'' \<mapsto> JObj Map.empty]]"
proof -
  have who: "fst (auth_getUser demo_store) = Some ''u1''" "calls demo_store = []"
    by (simp_all add: auth_getUser_def demo_store_def)
  have vals: "id_or_null (Some ''u1'') = JStr ''u1''" "id_or_undefined (Some ''u1'') = JStr ''u1''"
    "field [''id'' \<mapsto> JStr ''new'', ''name'' \<mapsto> JStr ''Autumn'', ''created_by'' \<mapsto> JStr ''u1''] ''id''
       = JStr ''new''"
    by (simp_all add: id_or_null_def id_or_undefined_def truthy_def field_def)
  have pair: "\<And>p a. fst p = a \<Longrightarrow> p = (a, snd p)" by auto
  note eqs = demo_returns [THEN pair]
  show ?thesis
    using audit_insert_follows_primary_write
      [where who = "JStr ''u1''" and s = demo_store
         and c = "[''name'' \<mapsto> JStr ''Autumn'']" and cid = "''c1''"
         and u = "[''name'' \<mapsto> JStr ''Autumn'']" and at = "''2030-01-01T09:00:00Z''"
         and ?d1.0 = "[''id'' \<mapsto> JStr ''new'', ''name'' \<mapsto> JStr ''Autumn'', ''created_by'' \<mapsto> JStr ''u1'']"
         and ?s1.0 = "snd (createCampaign [''name'' \<mapsto> JStr ''Autumn''] demo_store)"
         and ?d2.0 = "demo_campaign(''name'' \<mapsto> JStr ''Autumn'')"
         and ?s2.0 = "snd (updateCampaign ''c1'' [''name'' \<mapsto> JStr ''Autumn''] demo_store)"
         and ?d3.0 = "demo_campaign(''status'' \<mapsto> JStr ''scheduled'',
                        ''scheduled_at'' \<mapsto> JStr ''2030-01-01T09:00:00Z'')"
         and ?s3.0 = "snd (scheduleCampaign ''c1'' ''2030-01-01T09:00:00Z'' demo_store)"
         and ?d4.0 = "demo_campaign(''status'' \<mapsto> JStr ''cancelled'')"
         and ?s4.0 = "snd (cancelCampaign ''c1'' demo_store)"
         and ?d5.0 = "demo_campaign(''status'' \<mapsto> JStr ''paused'')"
         and ?s5.0 = "snd (pauseCampaign ''c1'' demo_store)"
         and ?d6.0 = "demo_campaign(''status'' \<mapsto> JStr ''scheduled'')"
         and ?s6.0 = "snd (resumeCampaign ''c1'' demo_store)"]
      eqs
    by (simp add: who vals fun_upd_twist)
qed


section \<open>A failed audit insert\<close>

text \<open>
  Claim C2, as amended. \<open>logAuditAction\<close> awaits the insert and discards the response, so
  an audit insert that the store answers with an error is not surfaced. Each of
  \<open>createCampaign\<close>, \<open>updateCampaign\<close>, \<open>scheduleCampaign\<close>, \<open>cancelCampaign\<close>,
  \<open>pauseCampaign\<close>, \<open>resumeCampaign\<close> and \<open>previewCampaign\<close> gives the caller, on a store
  that refuses every audit insert, exactly the outcome it gives on the same store with
  a working audit log: nothing is thrown on account of the audit log. The primary
  write is not rolled back (every other table ends as in the run with a working audit
  log), and the audit log itself is left as it was.
\<close>

theorem audit_failure_not_surfaced:
  "fst (createCampaign c (audit_log_refused e s)) = fst (createCampaign c s)
   \<and> tables (snd (createCampaign c (audit_log_refused e s)))
       = (tables (snd (createCampaign c s)))(''campaign_audit_log'' := tables s ''campaign_audit_log'')
   \<and> fst (updateCampaign cid u (audit_log_refused e s)) = fst (updateCampaign cid u s)
   \<and> tables (snd (updateCampaign cid u (audit_log_refused e s)))
       = (tables (snd (updateCampaign cid u s)))(''campaign_audit_log'' := tables s ''campaign_audit_log'')
   \<and> fst (scheduleCampaign cid at (audit_log_refused e s)) = fst (scheduleCampaign cid at s)
   \<and> tables (snd (scheduleCampaign cid at (audit_log_refused e s)))
       = (tables (snd (scheduleCampaign cid at s)))(''campaign_audit_log'' := tables s ''campaign_audit_log'')
   \<and> fst (cancelCampaign cid (audit_log_refused e s)) = fst (cancelCampaign cid s)
   \<and> tables (snd (cancelCampaign cid (audit_log_refused e s)))
       = (tables (snd (cancelCampaign cid s)))(''campaign_audit_log'' := tables s ''campaign_audit_log'')
   \<and> fst (pauseCampaign cid (audit_log_refused e s)) = fst (pauseCampaign cid s)
   \<and> tables (snd (pauseCampaign cid (audit_log_refused e s)))
       = (tables (snd (pauseCampaign cid s)))(''campaign_audit_log'' := tables s ''campaign_audit_log'')
   \<and> fst (resumeCampaign cid (audit_log_refused e s)) = fst (resumeCampaign cid s)
   \<and> tables (snd (resumeCampaign cid (audit_log_refused e s)))
       = (tables (snd (resumeCampaign cid s)))(''campaign_audit_log'' := tables s ''campaign_audit_log'')
   \<and> fst (previewCampaign cid cu (audit_log_refused e s)) = fst (previewCampaign cid cu s)
   \<and> tables (snd (previewCampaign cid cu (audit_log_refused e s)))
       = (tables (snd (previewCampaign cid cu s)))(''campaign_audit_log'' := tables s ''campaign_audit_log'')"
  using createCampaign_audit_refused [of c e s] updateCampaign_audit_refused [of cid u e s]
    scheduleCampaign_audit_refused [of cid at e s] cancelCampaign_audit_refused [of cid e s]
    pauseCampaign_audit_refused [of cid e s] resumeCampaign_audit_refused [of cid e s]
    previewCampaign_audit_refused [of cid cu e s]
  by (simp only: simp_thms)

theorem audit_failure_not_surfaced_witness:
  "fst (pauseCampaign ''c1'' (audit_log_refused ''audit log unavailable'' demo_store))
     = Return (demo_campaign(''status'' \<mapsto> JStr ''paused''))
   \<and> tables (snd (pauseCampaign ''c1'' (audit_log_refused ''audit log unavailable'' demo_store)))
        ''campaign_audit_log''
     = [audit_entry (JStr ''c1'') ''created'' JNull Map.empty]"
proof -
  have log: "tables demo_store ''campaign_audit_log''
               = [audit_entry (JStr ''c1'') ''created'' JNull Map.empty]"
    by (simp add: demo_store_def demo_tables_def)
  show ?thesis
    using audit_failure_not_surfaced
      [where c = Map.empty and u = Map.empty and at = "[]" and cu = "''k1''"
         and e = "''audit log unavailable''" and s = demo_store and cid = "''c1''"]
    by (simp add: demo_returns(5) log)
qed

text \<open>
  The stronger reading, that the failure reaches the caller as a thrown error, does not
  hold: on the example store with the audit log refusing inserts, \<open>createCampaign\<close>
  sends the audit insert, the store answers it with an error, and the call returns the
  created row.
\<close>

theorem audit_failure_thrown_counterexample:
  "fault (audit_log_refused ''audit log unavailable'' demo_store)
     (Insert ''campaign_audit_log'' (audit_entry (JStr ''new'') ''created'' (JStr ''u1'') Map.empty))
     = Some ''audit log unavailable''
   \<and> calls (snd (createCampaign [''name'' \<mapsto> JStr ''Autumn'']
                     (audit_log_refused ''audit log unavailable'' demo_store)))
       = [AuthGetUser,
          Insert ''campaigns'' [''name'' \<mapsto> JStr ''Autumn'', ''created_by'' \<mapsto> JStr ''u1''],
          Insert ''campaign_audit_log'' (audit_entry (JStr ''new'') ''created'' (JStr ''u1'') Map.empty)]
   \<and> fst (createCampaign [''name'' \<mapsto> JStr ''Autumn'']
            (audit_log_refused ''audit log unavailable'' demo_store))
       = Return [''id'' \<mapsto> JStr ''new'', ''name'' \<mapsto> JStr ''Autumn'', ''created_by'' \<mapsto> JStr ''u1'']
   \<and> fst (createCampaign [''name'' \<mapsto> JStr ''Autumn'']
            (audit_log_refused ''audit log unavailable'' demo_store))
       \<noteq> Throw (Error ''audit log unavailable'')"
proof -
  let ?s = "audit_log_refused ''audit log unavailable'' demo_store"
  let ?c = "[''name'' \<mapsto> JStr ''Autumn'']"
  let ?d = "[''id'' \<mapsto> JStr ''new'', ''name'' \<mapsto> JStr ''Autumn'', ''created_by'' \<mapsto> JStr ''u1'']"
  have ret: "fst (createCampaign ?c ?s) = Return ?d"
    using createCampaign_audit_refused [of ?c "''audit log unavailable''" demo_store]
    by (simp add: demo_returns(1))
  then have "createCampaign ?c ?s = (Return ?d, snd (createCampaign ?c ?s))"
    by (simp add: prod_eq_iff)
  from createCampaign_calls [OF this]
  have "calls (snd (createCampaign ?c ?s))
       = [AuthGetUser,
          Insert ''campaigns'' [''name'' \<mapsto> JStr ''Autumn'', ''created_by'' \<mapsto> JStr ''u1''],
          Insert ''campaign_audit_log'' (audit_entry (JStr ''new'') ''created'' (JStr ''u1'') Map.empty)]"
    by (simp add: auth_getUser_fst demo_store_def id_or_null_def id_or_undefined_def truthy_def
        field_def fun_upd_twist)
  with ret show ?thesis by simp
qed


section \<open>Preview: rendering the messages\<close>

text \<open>
  Claim C3, as amended. When \<open>previewCampaign\<close> returns, the stored messages are what
  they were, and the result holds one rendered copy per stored message of the campaign,
  in order: the message itself, template included, with \<open>rendered_message\<close> added. The
  rendered text is the template after three replacements made one after the other, each
  on the output of the one before: every occurrence of \<open>{{customer_name}}\<close> by the
  customer's full name, then every occurrence of \<open>{{restaurant_name}}\<close> by the
  restaurant's name (the empty string when there is no restaurant), then every
  occurrence of \<open>{{promo_code}}\<close> by \<open>PREVIEW-CODE\<close>; so placeholder text carried in by a
  name is replaced by the later passes. This is proved for names without a dollar sign.
  A template in which none of the three tokens occurs is returned unchanged, whatever
  the names are.
\<close>

theorem previewCampaign_renders:
  assumes "previewCampaign cid cu s = (Return p, s')"
  shows "tables s' ''campaign_messages'' = tables s ''campaign_messages''
    \<and> filter (\<lambda>r. r ''id'' = Some (JStr cu)) (tables s ''customers'') = [customer p]
    \<and> list_all2
        (\<lambda>msg out. \<exists>t. msg ''message_template'' = Some (JStr t)
           \<and> out = msg(''rendered_message'' \<mapsto>
                 JStr (render (customer p)
                        (data_of (single (fst (db_select ''restaurants'' ''*''
                           [(''id'', field (campaign p) ''restaurant_id'')] s)))) t)))
        (filter (\<lambda>r. r ''campaign_id'' = Some (JStr cid)) (tables s ''campaign_messages''))
        (messages p)
    \<and> (\<forall>restaurant t.
          CHR ''$'' \<notin> set (customer_full_name (customer p)) \<longrightarrow>
          CHR ''$'' \<notin> set (restaurant_name_or_empty restaurant) \<longrightarrow>
          render (customer p) restaurant t
            = replace_all ''{{promo_code}}'' ''PREVIEW-CODE''
                (replace_all ''{{restaurant_name}}'' (restaurant_name_or_empty restaurant)
                   (replace_all ''{{customer_name}}'' (customer_full_name (customer p)) t)))
    \<and> restaurant_name_or_empty None = []
    \<and> (\<forall>restaurant t.
          \<not> occurs ''{{customer_name}}'' t \<longrightarrow> \<not> occurs ''{{restaurant_name}}'' t \<longrightarrow>
          \<not> occurs ''{{promo_code}}'' t \<longrightarrow>
          render (customer p) restaurant t = t)"
proof -
  let ?s2 = "snd (getCampaignMessages cid (snd (getCampaign cid s)))"
  let ?M = "filter (\<lambda>r. r ''campaign_id'' = Some (JStr cid)) (tables s ''campaign_messages'')"
  let ?K = "fst (db_select ''customers'' ''*'' [(''id'', JStr cu)] ?s2)"
  from assms obtain camp msgs cust rendered where
    c: "fst (getCampaign cid s) = Return (Some camp)"
    and m: "fst (getCampaignMessages cid (snd (getCampaign cid s))) = Return msgs"
    and k: "data_of (single ?K) = Some cust"
    and r: "those (map (render_message cust
               (data_of (single (fst (db_select ''restaurants'' ''*''
                  [(''id'', field camp ''restaurant_id'')]
                  (log_call (Select ''customers'' ''*'' [(''id'', JStr cu)]) ?s2)))))) msgs)
            = Some rendered"
    and p: "p = \<lparr>campaign = camp, messages = rendered, customer = cust\<rparr>"
    and s': "s' = logAuditAction (JStr cid) ''preview''
               (id_or_null (fst (auth_getUser
                  (log_call (Select ''restaurants'' ''*'' [(''id'', field camp ''restaurant_id'')])
                     (log_call (Select ''customers'' ''*'' [(''id'', JStr cu)]) ?s2)))))
               [''customer_id'' \<mapsto> JStr cu]
               (log_call AuthGetUser
                  (log_call (Select ''restaurants'' ''*'' [(''id'', field camp ''restaurant_id'')])
                     (log_call (Select ''customers'' ''*'' [(''id'', JStr cu)]) ?s2)))"
    by (rule previewCampaign_returns)
  have t2: "tables ?s2 = tables s" "fault ?s2 = fault s"
    by (simp_all add: getCampaignMessages_snd getCampaign_snd)
  have frame: "tables s' ''campaign_messages'' = tables s ''campaign_messages''"
    by (simp add: s' logAuditAction_fields t2 split: option.splits)
  have msgs: "msgs = ?M"
    using m by (simp add: getCampaignMessages_fst getCampaign_snd split: option.splits)
  have cust: "filter (\<lambda>r. r ''id'' = Some (JStr cu)) (tables s ''customers'') = [cust]"
    using k by (simp add: db_select_fst t2 matches_single single_def data_of_def
        split: option.splits list.splits)
  have rest: "fst (db_select ''restaurants'' ''*'' fs
                 (log_call (Select ''customers'' ''*'' [(''id'', JStr cu)]) ?s2))
              = fst (db_select ''restaurants'' ''*'' fs s)" for fs
    by (simp add: db_select_fst t2 split: option.splits)
  have "list_all2 (\<lambda>msg out. render_message cust
               (data_of (single (fst (db_select ''restaurants'' ''*''
                  [(''id'', field camp ''restaurant_id'')] s)))) msg = Some out) ?M rendered"
    using those_map_all2 [OF r] by (simp add: rest msgs)
  then have each: "list_all2
        (\<lambda>msg out. \<exists>t. msg ''message_template'' = Some (JStr t)
           \<and> out = msg(''rendered_message'' \<mapsto>
                 JStr (render cust
                        (data_of (single (fst (db_select ''restaurants'' ''*''
                           [(''id'', field camp ''restaurant_id'')] s)))) t)))
        ?M rendered"
    by (rule list_all2_mono) (erule render_message_Some)
  have empty: "restaurant_name_or_empty None = []"
    by (simp add: restaurant_name_or_empty_def truthy_def to_string_def)
  show ?thesis
    using frame cust each empty render_plain [of cust] render_untouched [of _ cust]
    by (simp add: p)
qed

theorem previewCampaign_renders_witness:
  "previewCampaign ''c1'' ''k1'' demo_store
     = (Return \<lparr>campaign = demo_campaign,
                messages = [demo_message(''rendered_message'' \<mapsto>
                              JStr ''Hi Ann Lee: PREVIEW-CODE at Luigi {{unknown}}'')],
                customer = demo_customer\<rparr>,
        snd (previewCampaign ''c1'' ''k1'' demo_store))
   \<and> tables (snd (previewCampaign ''c1'' ''k1'' demo_store)) ''campaign_messages'' = [demo_message]
   \<and> CHR ''$'' \<notin> set (customer_full_name demo_customer)
   \<and> CHR ''$'' \<notin> set (restaurant_name_or_empty (Some [''name'' \<mapsto> JStr ''Luigi'']))
   \<and> render demo_customer (Some [''name'' \<mapsto> JStr ''Luigi''])
        ''Hi {{customer_name}}: {{promo_code}} at {{restaurant_name}} {{unknown}}''
       = replace_all ''{{promo_code}}'' ''PREVIEW-CODE''
           (replace_all ''{{restaurant_name}}'' ''Luigi''
              (replace_all ''{{customer_name}}'' ''Ann Lee''
                 ''Hi {{customer_name}}: {{promo_code}} at {{restaurant_name}} {{unknown}}''))
   \<and> \<not> occurs ''{{customer_name}}'' ''Dear guest {{unknown}}''
   \<and> \<not> occurs ''{{restaurant_name}}'' ''Dear guest {{unknown}}''
   \<and> \<not> occurs ''{{promo_code}}'' ''Dear guest {{unknown}}''
   \<and> render demo_customer None ''Dear guest {{unknown}}'' = ''Dear guest {{unknown}}''"
proof -
  let ?p = "\<lparr>campaign = demo_campaign,
             messages = [demo_message(''rendered_message'' \<mapsto>
                           JStr ''Hi Ann Lee: PREVIEW-CODE at Luigi {{unknown}}'')],
             customer = demo_customer\<rparr>"
  let ?s' = "snd (previewCampaign ''c1'' ''k1'' demo_store)"
  have run: "previewCampaign ''c1'' ''k1'' demo_store = (Return ?p, ?s')"
    using demo_preview(1) by (simp add: prod_eq_iff)
  note T = previewCampaign_renders [OF run]
  have names: "customer_full_name demo_customer = ''Ann Lee''"
    "restaurant_name_or_empty (Some [''name'' \<mapsto> JStr ''Luigi'']) = ''Luigi''"
    by (simp_all add: customer_full_name_def restaurant_name_or_empty_def demo_customer_def
        field_def to_string_def truthy_def)
  have absent: "\<not> occurs ''{{customer_name}}'' ''Dear guest {{unknown}}''"
    "\<not> occurs ''{{restaurant_name}}'' ''Dear guest {{unknown}}''"
    "\<not> occurs ''{{promo_code}}'' ''Dear guest {{unknown}}''"
    by simp_all
  have tabm: "tables demo_store ''campaign_messages'' = [demo_message]"
    by (simp add: demo_store_def demo_tables_def)
  from T [THEN conjunct1] have frame: "tables ?s' ''campaign_messages'' = [demo_message]"
    by (simp add: tabm)
  from T have plain: "render demo_customer (Some [''name'' \<mapsto> JStr ''Luigi''])
        ''Hi {{customer_name}}: {{promo_code}} at {{restaurant_name}} {{unknown}}''
       = replace_all ''{{promo_code}}'' ''PREVIEW-CODE''
           (replace_all ''{{restaurant_name}}'' ''Luigi''
              (replace_all ''{{customer_name}}'' ''Ann Lee''
                 ''Hi {{customer_name}}: {{promo_code}} at {{restaurant_name}} {{unknown}}''))"
    by (simp add: names)
  from T absent have same: "render demo_customer None ''Dear guest {{unknown}}'' = ''Dear guest {{unknown}}''"
    by simp
  show ?thesis
    using run frame plain same absent by (simp add: names)
qed

text \<open>
  The replacement is not simultaneous: for a customer whose first name is the text
  \<open>{{promo_code}}\<close>, the occurrence of \<open>{{customer_name}}\<close> does not end up replaced by
  the customer's full name, which is nowhere in the rendered message.
\<close>

theorem previewCampaign_full_name_counterexample:
  "fst (previewCampaign ''c1'' ''k2'' demo_store)
     = Return \<lparr>campaign = demo_campaign,
               messages = [demo_message(''rendered_message'' \<mapsto>
                             JStr ''Hi PREVIEW-CODE Doe: PREVIEW-CODE at Luigi {{unknown}}'')],
               customer = demo_odd_customer\<rparr>
   \<and> demo_message ''message_template''
       = Some (JStr ''Hi {{customer_name}}: {{promo_code}} at {{restaurant_name}} {{unknown}}'')
   \<and> customer_full_name demo_odd_customer = ''{{promo_code}} Doe''
   \<and> \<not> occurs (customer_full_name demo_odd_customer)
         ''Hi PREVIEW-CODE Doe: PREVIEW-CODE at Luigi {{unknown}}''"
proof -
  have name: "customer_full_name demo_odd_customer = ''{{promo_code}} Doe''"
    by (simp add: customer_full_name_def demo_odd_customer_def field_def to_string_def)
  have "\<not> occurs ''{{promo_code}} Doe'' ''Hi PREVIEW-CODE Doe: PREVIEW-CODE at Luigi {{unknown}}''"
    by simp
  then show ?thesis
    using demo_preview(2) by (simp add: name demo_message_def)
qed

text \<open>
  A dollar sign in a name is read by \<open>replace\<close> as the start of a replacement pattern:
  a restaurant named \<open>Cash $$ Carry\<close> is rendered with one dollar sign.
\<close>

lemma render_dollar_sign:
  "render demo_customer (Some [''name'' \<mapsto> JStr ''Cash $$ Carry'']) ''Visit {{restaurant_name}}''
     = ''Visit Cash $ Carry''"
  by (simp add: render_def js_replace_def customer_full_name_def restaurant_name_or_empty_def
      demo_customer_def field_def to_string_def truthy_def)


section \<open>Preview: what is not found\<close>

text \<open>
  Claim C4. \<open>previewCampaign\<close> fails with a not-found error, and never returns a partial
  result, when the campaign does not exist, when it has no messages, or when the
  customer id does not resolve. The source has no error class of its own: the
  not-found errors are \<open>Error\<close>s with the messages \<open>Campaign or messages not found\<close> and
  \<open>Customer not found\<close>. With the campaign and message lookups answered by the store, a
  missing campaign and an empty message list each give the first message, and, the
  campaign and its messages being there, a missing customer gives the second. In all
  three cases, whatever the store answers, the call does not return.
\<close>

theorem previewCampaign_not_found:
  "(fault s (Select ''campaigns'' ''*'' [(''id'', JStr cid)]) = None \<longrightarrow>
    fault s (Select ''campaign_messages'' ''*'' [(''campaign_id'', JStr cid)]) = None \<longrightarrow>
    filter (\<lambda>r. r ''id'' = Some (JStr cid)) (tables s ''campaigns'') = [] \<longrightarrow>
      fst (previewCampaign cid cu s) = Throw (Error ''Campaign or messages not found''))
   \<and> (fault s (Select ''campaigns'' ''*'' [(''id'', JStr cid)]) = None \<longrightarrow>
    fault s (Select ''campaign_messages'' ''*'' [(''campaign_id'', JStr cid)]) = None \<longrightarrow>
    filter (\<lambda>r. r ''id'' = Some (JStr cid)) (tables s ''campaigns'') = [camp] \<longrightarrow>
    filter (\<lambda>r. r ''campaign_id'' = Some (JStr cid)) (tables s ''campaign_messages'') = [] \<longrightarrow>
      fst (previewCampaign cid cu s) = Throw (Error ''Campaign or messages not found''))
   \<and> (fault s (Select ''campaigns'' ''*'' [(''id'', JStr cid)]) = None \<longrightarrow>
    fault s (Select ''campaign_messages'' ''*'' [(''campaign_id'', JStr cid)]) = None \<longrightarrow>
    filter (\<lambda>r. r ''id'' = Some (JStr cid)) (tables s ''campaigns'') = [camp] \<longrightarrow>
    filter (\<lambda>r. r ''campaign_id'' = Some (JStr cid)) (tables s ''campaign_messages'') \<noteq> [] \<longrightarrow>
    filter (\<lambda>r. r ''id'' = Some (JStr cu)) (tables s ''customers'') = [] \<longrightarrow>
      fst (previewCampaign cid cu s) = Throw (Error ''Customer not found''))
   \<and> (filter (\<lambda>r. r ''id'' = Some (JStr cid)) (tables s ''campaigns'') = []
        \<or> filter (\<lambda>r. r ''campaign_id'' = Some (JStr cid)) (tables s ''campaign_messages'') = []
        \<or> filter (\<lambda>r. r ''id'' = Some (JStr cu)) (tables s ''customers'') = [] \<longrightarrow>
      (\<forall>p. fst (previewCampaign cid cu s) \<noteq> Return p))"
proof (intro conjI impI allI)
  assume "fault s (Select ''campaigns'' ''*'' [(''id'', JStr cid)]) = None"
    "fault s (Select ''campaign_messages'' ''*'' [(''campaign_id'', JStr cid)]) = None"
    "filter (\<lambda>r. r ''id'' = Some (JStr cid)) (tables s ''campaigns'') = []"
  then show "fst (previewCampaign cid cu s) = Throw (Error ''Campaign or messages not found'')"
    by (simp add: previewCampaign_unfold getCampaign_fst getCampaign_snd
        getCampaignMessages_fst Let_def)
next
  assume "fault s (Select ''campaigns'' ''*'' [(''id'', JStr cid)]) = None"
    "fault s (Select ''campaign_messages'' ''*'' [(''campaign_id'', JStr cid)]) = None"
    "filter (\<lambda>r. r ''id'' = Some (JStr cid)) (tables s ''campaigns'') = [camp]"
    "filter (\<lambda>r. r ''campaign_id'' = Some (JStr cid)) (tables s ''campaign_messages'') = []"
  then show "fst (previewCampaign cid cu s) = Throw (Error ''Campaign or messages not found'')"
    by (simp add: previewCampaign_unfold getCampaign_fst getCampaign_snd
        getCampaignMessages_fst Let_def)
next
  assume a: "fault s (Select ''campaigns'' ''*'' [(''id'', JStr cid)]) = None"
    "fault s (Select ''campaign_messages'' ''*'' [(''campaign_id'', JStr cid)]) = None"
    "filter (\<lambda>r. r ''id'' = Some (JStr cid)) (tables s ''campaigns'') = [camp]"
    "filter (\<lambda>r. r ''campaign_id'' = Some (JStr cid)) (tables s ''campaign_messages'') \<noteq> []"
    and b: "filter (\<lambda>r. r ''id'' = Some (JStr cu)) (tables s ''customers'') = []"
  from b have "data_of (single (fst (db_select ''customers'' ''*'' [(''id'', JStr cu)]
          (snd (getCampaignMessages cid (snd (getCampaign cid s))))))) = None"
    by (simp add: db_select_fst getCampaignMessages_snd getCampaign_snd matches_single
        single_def data_of_def split: option.splits)
  with a show "fst (previewCampaign cid cu s) = Throw (Error ''Customer not found'')"
    by (simp add: previewCampaign_unfold getCampaign_fst getCampaign_snd
        getCampaignMessages_fst Let_def)
next
  fix p
  assume "filter (\<lambda>r. r ''id'' = Some (JStr cid)) (tables s ''campaigns'') = []
        \<or> filter (\<lambda>r. r ''campaign_id'' = Some (JStr cid)) (tables s ''campaign_messages'') = []
        \<or> filter (\<lambda>r. r ''id'' = Some (JStr cu)) (tables s ''customers'') = []"
  then show "fst (previewCampaign cid cu s) \<noteq> Return p"
    by (rule previewCampaign_needs_all)
qed


theorem previewCampaign_not_found_witness:
  "filter (\<lambda>r. r ''id'' = Some (JStr ''c9'')) (tables demo_store ''campaigns'') = []
   \<and> fst (previewCampaign ''c9'' ''k1'' demo_store) = Throw (Error ''Campaign or messages not found'')
   \<and> filter (\<lambda>r. r ''id'' = Some (JStr ''c2'')) (tables demo_store ''campaigns'') = [demo_cancelled]
   \<and> filter (\<lambda>r. r ''campaign_id'' = Some (JStr ''c2'')) (tables demo_store ''campaign_messages'') = []
   \<and> fst (previewCampaign ''c2'' ''k1'' demo_store) = Throw (Error ''Campaign or messages not found'')
   \<and> filter (\<lambda>r. r ''id'' = Some (JStr ''c1'')) (tables demo_store ''campaigns'') = [demo_campaign]
   \<and> filter (\<lambda>r. r ''campaign_id'' = Some (JStr ''c1'')) (tables demo_store ''campaign_messages'')
       = [demo_message]
   \<and> filter (\<lambda>r. r ''id'' = Some (JStr ''k9'')) (tables demo_store ''customers'') = []
   \<and> fst (previewCampaign ''c1'' ''k9'' demo_store) = Throw (Error ''Customer not found'')
   \<and> (\<forall>p. fst (previewCampaign ''c1'' ''k9'' demo_store) \<noteq> Return p)"
proof -
  have tabs:
    "filter (\<lambda>r. r ''id'' = Some (JStr ''c9'')) (tables demo_store ''campaigns'') = []"
    "filter (\<lambda>r. r ''id'' = Some (JStr ''c2'')) (tables demo_store ''campaigns'') = [demo_cancelled]"
    "filter (\<lambda>r. r ''campaign_id'' = Some (JStr ''c2'')) (tables demo_store ''campaign_messages'') = []"
    "filter (\<lambda>r. r ''id'' = Some (JStr ''c1'')) (tables demo_store ''campaigns'') = [demo_campaign]"
    "filter (\<lambda>r. r ''campaign_id'' = Some (JStr ''c1'')) (tables demo_store ''campaign_messages'')
       = [demo_message]"
    "filter (\<lambda>r. r ''id'' = Some (JStr ''k9'')) (tables demo_store ''customers'') = []"
    "fault demo_store = (\<lambda>c. None)"
    by (simp_all add: demo_store_def demo_tables_def demo_campaign_def demo_cancelled_def
        demo_message_def demo_customer_def demo_odd_customer_def)
  show ?thesis
    using previewCampaign_not_found [of demo_store "''c9''" "''k1''" demo_campaign]
      previewCampaign_not_found [of demo_store "''c2''" "''k1''" demo_cancelled]
      previewCampaign_not_found [of demo_store "''c1''" "''k9''" demo_campaign]
    by (simp add: tabs)
qed


section \<open>Resuming a campaign\<close>

text \<open>
  Claim C5. \<open>resumeCampaign\<close> sets the status to \<open>scheduled\<close> whatever it was before: for
  a campaign that exists (one row with the id) and a store that accepts the update, the
  call returns the row with \<open>status = scheduled\<close> and that is the row stored, for every
  prior row and so for every prior status, draft and cancelled included. The requests
  sent are the identity lookup, the update filtered on the id alone, and the audit
  insert: the prior status is never read, nothing is checked and no transition is
  rejected.
\<close>

theorem resumeCampaign_unconditional:
  assumes "fault s (Update ''campaigns'' [''status'' \<mapsto> JStr ''scheduled''] [(''id'', JStr cid)]) = None"
    and "filter (\<lambda>r. r ''id'' = Some (JStr cid)) (tables s ''campaigns'') = [row]"
  shows "fst (resumeCampaign cid s) = Return (row(''status'' \<mapsto> JStr ''scheduled''))
    \<and> tables (snd (resumeCampaign cid s)) ''campaigns''
        = map (\<lambda>r. if r ''id'' = Some (JStr cid) then r(''status'' \<mapsto> JStr ''scheduled'') else r)
            (tables s ''campaigns'')
    \<and> calls (snd (resumeCampaign cid s))
        = calls s @
          [AuthGetUser,
           Update ''campaigns'' [''status'' \<mapsto> JStr ''scheduled''] [(''id'', JStr cid)],
           Insert ''campaign_audit_log''
             (audit_entry (JStr cid) ''resumed'' (id_or_null (fst (auth_getUser s))) Map.empty)]"
  using assms
  by (simp add: resumeCampaign_def store_defs Let_def matches_single split: option.splits)

theorem resumeCampaign_unconditional_witness:
  "fst (resumeCampaign ''c1'' demo_store) = Return (demo_campaign(''status'' \<mapsto> JStr ''scheduled''))
   \<and> tables (snd (resumeCampaign ''c1'' demo_store)) ''campaigns''
       = [demo_campaign(''status'' \<mapsto> JStr ''scheduled''), demo_cancelled]
   \<and> demo_campaign ''status'' = Some (JStr ''draft'')
   \<and> fst (resumeCampaign ''c2'' demo_store) = Return (demo_cancelled(''status'' \<mapsto> JStr ''scheduled''))
   \<and> tables (snd (resumeCampaign ''c2'' demo_store)) ''campaigns''
       = [demo_campaign, demo_cancelled(''status'' \<mapsto> JStr ''scheduled'')]
   \<and> demo_cancelled ''status'' = Some (JStr ''cancelled'')"
proof -
  have ids: "demo_campaign ''id'' = Some (JStr ''c1'')" "demo_cancelled ''id'' = Some (JStr ''c2'')"
    "demo_campaign ''status'' = Some (JStr ''draft'')"
    "demo_cancelled ''status'' = Some (JStr ''cancelled'')"
    by (simp_all add: demo_campaign_def demo_cancelled_def)
  have tabs: "tables demo_store ''campaigns'' = [demo_campaign, demo_cancelled]"
    "fault demo_store = (\<lambda>c. None)"
    by (simp_all add: demo_store_def demo_tables_def)
  show ?thesis
    using resumeCampaign_unconditional [of demo_store "''c1''" demo_campaign]
      resumeCampaign_unconditional [of demo_store "''c2''" demo_cancelled]
    by (simp add: ids tabs)
qed


section \<open>The tags of a customer\<close>

text \<open>
  Claim C6. \<open>getCustomerTags\<close> returns exactly the tag objects unwrapped from the nested
  \<open>customer_tags\<close> field of the assignment rows. On the code, for any rows the store
  answers with, the result has one entry per row, in order, each the row's
  \<open>customer_tags\<close> value: nothing is filtered and nothing is added. With the join as the
  spec has it, the result is the list of the stored tag rows that the customer's
  assignments reference, in the order of the assignments; every entry is a tag object
  of the tag table, and the list never holds \<open>undefined\<close> or \<open>null\<close>, because an
  assignment whose tag was deleted has no row in the join. The call returns whenever
  the store answers the select.
\<close>

theorem getCustomerTags_unwraps:
  "(\<forall>rows. \<exists>tags. unwrap_customer_tags (Ok rows) = Return tags
        \<and> length tags = length rows
        \<and> (\<forall>i < length rows. tags ! i = field (rows ! i) ''customer_tags''))
   \<and> (fst (getCustomerTags cu s) = Return tags \<longrightarrow>
        tags = map JObj
                 (List.map_filter
                    (\<lambda>a. case a ''tag_id'' of None \<Rightarrow> None
                          | Some v \<Rightarrow> find (\<lambda>r. r ''id'' = Some v) (tables s ''customer_tags''))
                    (filter (\<lambda>a. a ''customer_id'' = Some (JStr cu))
                       (tables s ''customer_tag_assignments'')))
        \<and> JUndefined \<notin> set tags \<and> JNull \<notin> set tags
        \<and> (\<forall>t \<in> set tags. \<exists>tag \<in> set (tables s ''customer_tags''). t = JObj tag))
   \<and> (fault s (Select ''customer_tag_assignments'' ''customer_tags(*)''
                  [(''customer_id'', JStr cu)]) = None \<longrightarrow>
        (\<exists>found. fst (getCustomerTags cu s) = Return found))"
proof (intro conjI allI impI)
  fix rows
  show "\<exists>tags. unwrap_customer_tags (Ok rows) = Return tags
        \<and> length tags = length rows
        \<and> (\<forall>i < length rows. tags ! i = field (rows ! i) ''customer_tags'')"
    by (simp add: unwrap_customer_tags_def)
next
  assume ret: "fst (getCustomerTags cu s) = Return tags"
  let ?ref = "List.map_filter
                (\<lambda>a. case a ''tag_id'' of None \<Rightarrow> None
                      | Some v \<Rightarrow> find (\<lambda>r. r ''id'' = Some v) (tables s ''customer_tags''))
                (filter (\<lambda>a. a ''customer_id'' = Some (JStr cu))
                   (tables s ''customer_tag_assignments''))"
  from ret show eq: "tags = map JObj ?ref"
    by (auto simp: getCustomerTags_def db_select_embed_def unwrap_customer_tags_def Let_def
        matches_single unwrap_embedded split: option.splits)
  then show "JUndefined \<notin> set tags" and "JNull \<notin> set tags"
    by auto
  from eq show "\<forall>t \<in> set tags. \<exists>tag \<in> set (tables s ''customer_tags''). t = JObj tag"
    by (auto dest: referenced_tag_stored)
next
  assume "fault s (Select ''customer_tag_assignments'' ''customer_tags(*)''
                  [(''customer_id'', JStr cu)]) = None"
  then show "\<exists>found. fst (getCustomerTags cu s) = Return found"
    by (simp add: getCustomerTags_def db_select_embed_def unwrap_customer_tags_def Let_def)
qed

theorem getCustomerTags_unwraps_witness:
  "fst (getCustomerTags ''k1'' demo_store)
     = Return [JObj [''id'' \<mapsto> JStr ''t1'', ''name'' \<mapsto> JStr ''vip'']]
   \<and> JNull \<notin> set [JObj [''id'' \<mapsto> JStr ''t1'', ''name'' \<mapsto> JStr ''vip'']]
   \<and> tables (snd (db_delete ''customer_tags'' [(''id'', JStr ''t1'')] demo_store))
        ''customer_tag_assignments''
       = [[''customer_id'' \<mapsto> JStr ''k1'', ''tag_id'' \<mapsto> JStr ''t1'']]
   \<and> fst (getCustomerTags ''k1'' (snd (db_delete ''customer_tags'' [(''id'', JStr ''t1'')] demo_store)))
       = Return []"
proof -
  let ?gone = "snd (db_delete ''customer_tags'' [(''id'', JStr ''t1'')] demo_store)"
  have here: "fault demo_store = (\<lambda>c. None)"
    "tables demo_store ''customer_tags'' = [[''id'' \<mapsto> JStr ''t1'', ''name'' \<mapsto> JStr ''vip'']]"
    "tables demo_store ''customer_tag_assignments''
       = [[''customer_id'' \<mapsto> JStr ''k1'', ''tag_id'' \<mapsto> JStr ''t1'']]"
    by (simp_all add: demo_store_def demo_tables_def)
  have gone: "fault ?gone = (\<lambda>c. None)" "tables ?gone ''customer_tags'' = []"
    "tables ?gone ''customer_tag_assignments''
       = [[''customer_id'' \<mapsto> JStr ''k1'', ''tag_id'' \<mapsto> JStr ''t1'']]"
    by (simp_all add: db_delete_def Let_def log_call_def demo_store_def demo_tables_def)
  obtain a where a: "fst (getCustomerTags ''k1'' demo_store) = Return a"
    using getCustomerTags_unwraps [of "''k1''" demo_store "[]", THEN conjunct2, THEN conjunct2]
    by (auto simp: here)
  obtain b where b: "fst (getCustomerTags ''k1'' ?gone) = Return b"
    using getCustomerTags_unwraps [of "''k1''" ?gone "[]", THEN conjunct2, THEN conjunct2]
    by (auto simp: gone)
  note at_a = getCustomerTags_unwraps
    [of "''k1''" demo_store a, THEN conjunct2, THEN conjunct1, THEN mp, OF a, THEN conjunct1]
  note at_b = getCustomerTags_unwraps
    [of "''k1''" ?gone b, THEN conjunct2, THEN conjunct1, THEN mp, OF b, THEN conjunct1]
  have "a = [JObj [''id'' \<mapsto> JStr ''t1'', ''name'' \<mapsto> JStr ''vip'']]"
    unfolding at_a by (simp add: here List.map_filter_simps)
  moreover have "b = []"
    unfolding at_b by (simp add: gone List.map_filter_simps)
  ultimately show ?thesis
    using a b gone(3) by simp
qed


section \<open>Consent upsert\<close>

text \<open>
  Claim C7, as amended. \<open>updateCustomerConsent\<close> upserts on the pair
  \<open>(customer_id, restaurant_id)\<close> of the payload it sends, and the patch is spread over
  the two arguments. For two calls in sequence with the same pair of arguments, whose
  patches do not themselves carry \<open>customer_id\<close> or \<open>restaurant_id\<close>, on a store that
  accepts both requests and holds at most one row for the pair beforehand: afterwards
  exactly one consent row exists for the pair, it is the row the second call returns,
  and it is the earlier row (or the server defaults of a new row) with the fields of the
  first call merged over it and the fields of the second call merged over those.
\<close>

theorem updateCustomerConsent_upserts_by_pair:
  assumes "p1 ''customer_id'' = None" and "p1 ''restaurant_id'' = None"
    and "p2 ''customer_id'' = None" and "p2 ''restaurant_id'' = None"
    and "fault s (Upsert ''customer_consent'' (consent_payload c r p1)) = None"
    and "fault s (Upsert ''customer_consent'' (consent_payload c r p2)) = None"
    and "length (consent_rows c r s) \<le> 1"
    and "s1 = snd (updateCustomerConsent c r p1 s)"
    and "s2 = snd (updateCustomerConsent c r p2 s1)"
    and "base = (case consent_rows c r s of
                   [] \<Rightarrow> server_defaults s ''customer_consent'' (serial s)
                 | row # rest \<Rightarrow> row)"
  shows "fst (updateCustomerConsent c r p1 s) = Return (base ++ wire (consent_payload c r p1))
    \<and> fst (updateCustomerConsent c r p2 s1)
        = Return (base ++ wire (consent_payload c r p1) ++ wire (consent_payload c r p2))
    \<and> consent_rows c r s2
        = [base ++ wire (consent_payload c r p1) ++ wire (consent_payload c r p2)]"
proof -
  note first = updateCustomerConsent_step [OF assms(1,2,5,7)]
  have rows1: "consent_rows c r s1 = [base ++ wire (consent_payload c r p1)]"
    using first(2) assms(8,10) by simp
  have ok2: "fault s1 (Upsert ''customer_consent'' (consent_payload c r p2)) = None"
    using first(3) assms(6,8) by simp
  have uniq1: "length (consent_rows c r s1) \<le> 1"
    using rows1 by simp
  note second = updateCustomerConsent_step [OF assms(3,4) ok2 uniq1]
  show ?thesis
    using first(1) second(1,2) rows1 assms(9,10) by simp
qed

theorem updateCustomerConsent_upserts_by_pair_witness:
  "fst (updateCustomerConsent ''k1'' ''r1'' [''email'' \<mapsto> JBool True] demo_store)
     = Return ([''id'' \<mapsto> JStr ''new'']
               ++ wire (consent_payload ''k1'' ''r1'' [''email'' \<mapsto> JBool True]))
   \<and> fst (updateCustomerConsent ''k1'' ''r1'' [''email'' \<mapsto> JBool False, ''sms'' \<mapsto> JBool True]
           (snd (updateCustomerConsent ''k1'' ''r1'' [''email'' \<mapsto> JBool True] demo_store)))
     = Return ([''id'' \<mapsto> JStr ''new'']
               ++ wire (consent_payload ''k1'' ''r1'' [''email'' \<mapsto> JBool True])
               ++ wire (consent_payload ''k1'' ''r1''
                          [''email'' \<mapsto> JBool False, ''sms'' \<mapsto> JBool True]))
   \<and> consent_rows ''k1'' ''r1''
        (snd (updateCustomerConsent ''k1'' ''r1'' [''email'' \<mapsto> JBool False, ''sms'' \<mapsto> JBool True]
           (snd (updateCustomerConsent ''k1'' ''r1'' [''email'' \<mapsto> JBool True] demo_store))))
     = [[''id'' \<mapsto> JStr ''new'']
        ++ wire (consent_payload ''k1'' ''r1'' [''email'' \<mapsto> JBool True])
        ++ wire (consent_payload ''k1'' ''r1''
                   [''email'' \<mapsto> JBool False, ''sms'' \<mapsto> JBool True])]
   \<and> ([''id'' \<mapsto> JStr ''new'']
        ++ wire (consent_payload ''k1'' ''r1'' [''email'' \<mapsto> JBool True])
        ++ wire (consent_payload ''k1'' ''r1''
                   [''email'' \<mapsto> JBool False, ''sms'' \<mapsto> JBool True]))
       = [''id'' \<mapsto> JStr ''new'', ''customer_id'' \<mapsto> JStr ''k1'', ''restaurant_id'' \<mapsto> JStr ''r1'',
          ''email'' \<mapsto> JBool False, ''sms'' \<mapsto> JBool True]"
proof -
  have start: "consent_rows ''k1'' ''r1'' demo_store = []" "fault demo_store = (\<lambda>c. None)"
    "server_defaults demo_store ''customer_consent'' (serial demo_store) = [''id'' \<mapsto> JStr ''new'']"
    by (simp_all add: consent_rows_def demo_store_def demo_tables_def)
  have row: "([''id'' \<mapsto> JStr ''new'']
        ++ wire (consent_payload ''k1'' ''r1'' [''email'' \<mapsto> JBool True])
        ++ wire (consent_payload ''k1'' ''r1''
                   [''email'' \<mapsto> JBool False, ''sms'' \<mapsto> JBool True]))
       = [''id'' \<mapsto> JStr ''new'', ''customer_id'' \<mapsto> JStr ''k1'', ''restaurant_id'' \<mapsto> JStr ''r1'',
          ''email'' \<mapsto> JBool False, ''sms'' \<mapsto> JBool True]"
    by (auto simp: fun_eq_iff map_add_def wire_apply consent_payload_def split: option.splits)
  have run: "fst (updateCustomerConsent ''k1'' ''r1'' [''email'' \<mapsto> JBool True] demo_store)
     = Return ([''id'' \<mapsto> JStr ''new'']
               ++ wire (consent_payload ''k1'' ''r1'' [''email'' \<mapsto> JBool True]))
   \<and> fst (updateCustomerConsent ''k1'' ''r1'' [''email'' \<mapsto> JBool False, ''sms'' \<mapsto> JBool True]
           (snd (updateCustomerConsent ''k1'' ''r1'' [''email'' \<mapsto> JBool True] demo_store)))
     = Return ([''id'' \<mapsto> JStr ''new'']
               ++ wire (consent_payload ''k1'' ''r1'' [''email'' \<mapsto> JBool True])
               ++ wire (consent_payload ''k1'' ''r1''
                          [''email'' \<mapsto> JBool False, ''sms'' \<mapsto> JBool True]))
   \<and> consent_rows ''k1'' ''r1''
        (snd (updateCustomerConsent ''k1'' ''r1'' [''email'' \<mapsto> JBool False, ''sms'' \<mapsto> JBool True]
           (snd (updateCustomerConsent ''k1'' ''r1'' [''email'' \<mapsto> JBool True] demo_store))))
     = [[''id'' \<mapsto> JStr ''new'']
        ++ wire (consent_payload ''k1'' ''r1'' [''email'' \<mapsto> JBool True])
        ++ wire (consent_payload ''k1'' ''r1''
                   [''email'' \<mapsto> JBool False, ''sms'' \<mapsto> JBool True])]"
    using updateCustomerConsent_upserts_by_pair
      [where s = demo_store and c = "''k1''" and r = "''r1''"
         and ?p1.0 = "[''email'' \<mapsto> JBool True]"
         and ?p2.0 = "[''email'' \<mapsto> JBool False, ''sms'' \<mapsto> JBool True]",
       OF _ _ _ _ _ _ _ refl refl refl]
    by (simp add: start)
  from run row show ?thesis by blast
qed

text \<open>
  A patch that carries its own \<open>customer_id\<close> overrides the argument: the second call
  below, made for the pair \<open>(k1, r1)\<close>, writes a row for \<open>(k2, r1)\<close>, and the row of
  \<open>(k1, r1)\<close> keeps the fields of the first call only.
\<close>

theorem updateCustomerConsent_key_override_counterexample:
  "consent_rows ''k1'' ''r1''
     (snd (updateCustomerConsent ''k1'' ''r1'' [''customer_id'' \<mapsto> JStr ''k2'', ''sms'' \<mapsto> JBool True]
        (snd (updateCustomerConsent ''k1'' ''r1'' [''email'' \<mapsto> JBool True] demo_store))))
     = [[''id'' \<mapsto> JStr ''new'', ''customer_id'' \<mapsto> JStr ''k1'', ''restaurant_id'' \<mapsto> JStr ''r1'',
         ''email'' \<mapsto> JBool True]]
   \<and> consent_rows ''k2'' ''r1''
     (snd (updateCustomerConsent ''k1'' ''r1'' [''customer_id'' \<mapsto> JStr ''k2'', ''sms'' \<mapsto> JBool True]
        (snd (updateCustomerConsent ''k1'' ''r1'' [''email'' \<mapsto> JBool True] demo_store))))
     = [[''id'' \<mapsto> JStr ''new+'', ''customer_id'' \<mapsto> JStr ''k2'', ''restaurant_id'' \<mapsto> JStr ''r1'',
         ''sms'' \<mapsto> JBool True]]"
  by (auto simp: updateCustomerConsent_def db_upsert_def consent_payload_def consent_rows_def
      Let_def single_def log_call_def same_key_def conflict_key_def wire_apply map_add_def
      demo_store_def demo_tables_def fun_eq_iff)


section \<open>The creator of a campaign\<close>

text \<open>
  Claim C8. When the store accepts the insert (and does not itself fill in the column
  \<open>created_by\<close>), \<open>createCampaign\<close> returns the persisted row, and its \<open>created_by\<close> is
  the id of the signed-in user at the time of the call, or is absent when the identity
  lookup gave no user, because nobody is signed in or because the lookup failed.
  Whatever \<open>created_by\<close> the caller put into the campaign object is overwritten. The
  create succeeds and the row is stored whether or not the identity lookup failed.
\<close>

theorem createCampaign_created_by:
  assumes "server_defaults s ''campaigns'' (serial s) ''created_by'' = None"
    and "fault s (Insert ''campaigns''
           (c(''created_by'' \<mapsto> id_or_undefined (fst (auth_getUser s))))) = None"
  shows "\<exists>d. fst (createCampaign c s) = Return d
           \<and> d ''created_by''
               = (case fault s AuthGetUser of None \<Rightarrow> map_option JStr (auth_user s)
                  | Some e \<Rightarrow> None)
           \<and> tables (snd (createCampaign c s)) ''campaigns'' = tables s ''campaigns'' @ [d]"
proof -
  let ?uid = "fst (auth_getUser s)"
  let ?d = "server_defaults s ''campaigns'' (serial s)
              ++ wire (c(''created_by'' \<mapsto> id_or_undefined ?uid))"
  have ret: "fst (createCampaign c s) = Return ?d"
    using assms(2) by (simp add: createCampaign_def store_defs Let_def split: option.splits)
  have tab: "tables (snd (createCampaign c s)) ''campaigns'' = tables s ''campaigns'' @ [?d]"
    using assms(2) by (simp add: createCampaign_def store_defs Let_def split: option.splits)
  have "?d ''created_by'' = map_option JStr ?uid"
    using assms(1) by (simp add: map_add_def wire_created_by split: option.splits)
  moreover have "?uid = (case fault s AuthGetUser of None \<Rightarrow> auth_user s | Some e \<Rightarrow> None)"
    by (simp add: auth_getUser_def split: option.splits)
  ultimately have "?d ''created_by''
      = (case fault s AuthGetUser of None \<Rightarrow> map_option JStr (auth_user s) | Some e \<Rightarrow> None)"
    by (simp split: option.splits)
  with ret tab show ?thesis by blast
qed


theorem createCampaign_created_by_witness:
  "(\<exists>d. fst (createCampaign [''name'' \<mapsto> JStr ''Autumn'', ''created_by'' \<mapsto> JStr ''someone''] demo_store)
          = Return d
        \<and> d ''created_by'' = Some (JStr ''u1'')
        \<and> tables (snd (createCampaign [''name'' \<mapsto> JStr ''Autumn'', ''created_by'' \<mapsto> JStr ''someone'']
                          demo_store)) ''campaigns''
            = [demo_campaign, demo_cancelled, d])
   \<and> (\<exists>d. fst (createCampaign [''name'' \<mapsto> JStr ''Autumn'', ''created_by'' \<mapsto> JStr ''someone'']
                 (refusing AuthGetUser ''session expired'' demo_store))
          = Return d
        \<and> d ''created_by'' = None
        \<and> tables (snd (createCampaign [''name'' \<mapsto> JStr ''Autumn'', ''created_by'' \<mapsto> JStr ''someone'']
                          (refusing AuthGetUser ''session expired'' demo_store))) ''campaigns''
            = [demo_campaign, demo_cancelled, d])"
  using createCampaign_created_by
      [of demo_store "[''name'' \<mapsto> JStr ''Autumn'', ''created_by'' \<mapsto> JStr ''someone'']"]
    createCampaign_created_by
      [of "refusing AuthGetUser ''session expired'' demo_store"
          "[''name'' \<mapsto> JStr ''Autumn'', ''created_by'' \<mapsto> JStr ''someone'']"]
  by (simp add: demo_store_def demo_tables_def refusing_def)


section \<open>Deleting a campaign\<close>

text \<open>
  Claim C9. \<open>deleteCampaign\<close> never touches the audit log: after every call, refused by
  the store or not, the table \<open>campaign_audit_log\<close> is what it was, and the only request
  sent is the delete of the rows of \<open>campaigns\<close> with the given id. When the store
  accepts the request the rows with that id are gone (a hard delete) and the call
  returns; when it refuses, the store's message is thrown and no table changes.
\<close>

theorem deleteCampaign_no_audit_entry:
  "tables (snd (deleteCampaign cid s)) ''campaign_audit_log'' = tables s ''campaign_audit_log''
   \<and> calls (snd (deleteCampaign cid s)) = calls s @ [Delete ''campaigns'' [(''id'', JStr cid)]]
   \<and> (case fault s (Delete ''campaigns'' [(''id'', JStr cid)]) of
        None \<Rightarrow>
          fst (deleteCampaign cid s) = Return ()
          \<and> tables (snd (deleteCampaign cid s)) ''campaigns''
              = filter (\<lambda>row. row ''id'' \<noteq> Some (JStr cid)) (tables s ''campaigns'')
      | Some e \<Rightarrow>
          fst (deleteCampaign cid s) = Throw (Error e)
          \<and> tables (snd (deleteCampaign cid s)) = tables s)"
  by (auto simp: deleteCampaign_def store_defs Let_def split: option.splits)

theorem deleteCampaign_no_audit_entry_witness:
  "fst (deleteCampaign ''c1'' demo_store) = Return ()
   \<and> tables (snd (deleteCampaign ''c1'' demo_store)) ''campaigns'' = [demo_cancelled]
   \<and> tables (snd (deleteCampaign ''c1'' demo_store)) ''campaign_audit_log''
       = [audit_entry (JStr ''c1'') ''created'' JNull Map.empty]
   \<and> calls (snd (deleteCampaign ''c1'' demo_store)) = [Delete ''campaigns'' [(''id'', JStr ''c1'')]]"
  using deleteCampaign_no_audit_entry [of "''c1''" demo_store]
  by (simp add: demo_store_def demo_tables_def demo_campaign_def demo_cancelled_def)


section \<open>Preview: a failed customer lookup\<close>

text \<open>
  Claim C10. In \<open>previewCampaign\<close> the response of the customer lookup is read for its
  data only. When the campaign and its messages were found and the customer lookup
  fails for any reason, be it an error answered by the store (with any message \<open>e\<close>) or
  a row count other than one, the call throws \<open>Customer not found\<close>: the store's own
  message is never passed on. Nothing is requested after the failed lookup.
\<close>

theorem previewCampaign_customer_lookup_failure:
  assumes "fault s (Select ''campaigns'' ''*'' [(''id'', JStr cid)]) = None"
    and "filter (\<lambda>r. r ''id'' = Some (JStr cid)) (tables s ''campaigns'') = [camp]"
    and "fault s (Select ''campaign_messages'' ''*'' [(''campaign_id'', JStr cid)]) = None"
    and "filter (\<lambda>r. r ''campaign_id'' = Some (JStr cid)) (tables s ''campaign_messages'') \<noteq> []"
    and "fault s (Select ''customers'' ''*'' [(''id'', JStr cu)]) = Some e
         \<or> length (filter (\<lambda>r. r ''id'' = Some (JStr cu)) (tables s ''customers'')) \<noteq> 1"
  shows "fst (previewCampaign cid cu s) = Throw (Error ''Customer not found'')
    \<and> calls (snd (previewCampaign cid cu s))
        = calls s @ [Select ''campaigns'' ''*'' [(''id'', JStr cid)],
                     Select ''campaign_messages'' ''*'' [(''campaign_id'', JStr cid)],
                     Select ''customers'' ''*'' [(''id'', JStr cu)]]"
proof -
  have "data_of (single (fst (db_select ''customers'' ''*'' [(''id'', JStr cu)]
          (snd (getCampaignMessages cid (snd (getCampaign cid s))))))) = None"
    using assms(5)
    by (auto simp: db_select_fst getCampaignMessages_snd getCampaign_snd matches_single
        single_def data_of_def split: option.splits list.splits)
  then show ?thesis
    using assms(1-4)
    by (simp add: previewCampaign_unfold getCampaign_fst getCampaign_snd
        getCampaignMessages_fst getCampaignMessages_snd Let_def)
qed

theorem previewCampaign_customer_lookup_failure_witness:
  "fst (previewCampaign ''c1'' ''k1''
          (refusing (Select ''customers'' ''*'' [(''id'', JStr ''k1'')]) ''connection reset'' demo_store))
     = Throw (Error ''Customer not found'')
   \<and> calls (snd (previewCampaign ''c1'' ''k1''
          (refusing (Select ''customers'' ''*'' [(''id'', JStr ''k1'')]) ''connection reset'' demo_store)))
     = [Select ''campaigns'' ''*'' [(''id'', JStr ''c1'')],
        Select ''campaign_messages'' ''*'' [(''campaign_id'', JStr ''c1'')],
        Select ''customers'' ''*'' [(''id'', JStr ''k1'')]]
   \<and> fault (refusing (Select ''customers'' ''*'' [(''id'', JStr ''k1'')]) ''connection reset'' demo_store)
        (Select ''customers'' ''*'' [(''id'', JStr ''k1'')]) = Some ''connection reset''
   \<and> filter (\<lambda>r. r ''id'' = Some (JStr ''k1'')) (tables demo_store ''customers'') = [demo_customer]"
  using previewCampaign_customer_lookup_failure
    [of "refusing (Select ''customers'' ''*'' [(''id'', JStr ''k1'')]) ''connection reset'' demo_store"
        "''c1''" demo_campaign "''k1''" "''connection reset''"]
  by (simp add: refusing_def demo_store_def demo_tables_def demo_campaign_def demo_cancelled_def
      demo_message_def demo_customer_def demo_odd_customer_def)

end
